theory Spec2Isabelle
  imports Complex_Main "HOL-Library.Word" "HOL-Library.Product_Lexorder"
    "HOL-Library.List_Lexorder" "HOL-Library.Char_ord"
begin

unbundle bit_operations_syntax

section \<open>Python values used by the extraction engine\<close>

text \<open>
  Exceptions of the source are values.  \<open>AttributeError n\<close> is raised when an object has no
  attribute \<open>n\<close>, \<open>NameError n\<close> when the name \<open>n\<close> is bound nowhere; \<open>ExternalError\<close> stands
  for any exception raised by a collaborator that is not part of the engine.
\<close>

datatype error =
    NotImplementedError
  | AttributeError string
  | NameError string
  | TypeError
  | IndexError
  | KeyError
  | ExternalError

text \<open>
  A Python \<open>dict\<close> is an association list in insertion order.
  \<open>dict_set\<close> is \<open>d[k] = v\<close>: an existing key keeps its place, a new key goes last.
\<close>

type_synonym ('k, 'v) dict = "('k \<times> 'v) list"

fun dict_set :: "('k, 'v) dict \<Rightarrow> 'k \<Rightarrow> 'v \<Rightarrow> ('k, 'v) dict" where
  "dict_set [] k v = [(k, v)]"
| "dict_set ((k', v') # d) k v = (if k' = k then (k, v) # d else (k', v') # dict_set d k v)"

text \<open>
  An exception leaves the rest of the computation undone: \<open>and_then m f\<close> runs \<open>f\<close> on the
  value of \<open>m\<close>, or passes on the exception \<open>m\<close> raised.
\<close>

definition and_then :: "error + 'a \<Rightarrow> ('a \<Rightarrow> error + 'b) \<Rightarrow> error + 'b" where
  "and_then m f = (case m of Inl e \<Rightarrow> Inl e | Inr x \<Rightarrow> f x)"

text \<open>A list comprehension whose element expression may raise.\<close>

fun for_each :: "('a \<Rightarrow> error + 'b) \<Rightarrow> 'a list \<Rightarrow> error + 'b list" where
  "for_each f [] = Inr []"
| "for_each f (x # xs) = and_then (f x) (\<lambda>y. and_then (for_each f xs) (\<lambda>ys. Inr (y # ys)))"

text \<open>\<open>xs[i]\<close> on a list: a negative index counts from the end.\<close>

definition getitem :: "'a list \<Rightarrow> int \<Rightarrow> error + 'a" where
  "getitem xs i =
     (if 0 \<le> i \<and> i < int (length xs) then Inr (xs ! nat i)
      else if - int (length xs) \<le> i \<and> i < 0 then Inr (xs ! nat (int (length xs) + i))
      else Inl IndexError)"

text \<open>
  \<open>bisect.bisect_left(a, x)\<close> of the standard library: \<open>lo = 0\<close>, \<open>hi = len(a)\<close>, and while
  \<open>lo < hi\<close> the middle element decides which half is kept.
\<close>

function bisect_loop :: "int list \<Rightarrow> int \<Rightarrow> nat \<Rightarrow> nat \<Rightarrow> nat" where
  "bisect_loop a x lo hi =
     (if lo < hi
      then (let mid = (lo + hi) div 2
            in if a ! mid < x then bisect_loop a x (mid + 1) hi else bisect_loop a x lo mid)
      else lo)"
  by pat_completeness auto
termination
  by (relation "measure (\<lambda>(a, x, lo, hi). hi - lo)") auto

declare bisect_loop.simps [simp del]

definition bisect_left :: "int list \<Rightarrow> int \<Rightarrow> nat" where
  "bisect_left a x = bisect_loop a x 0 (length a)"

section \<open>hashlib.sha1 and str.encode\<close>

text \<open>
  \<open>key.encode('utf-8')\<close>.  The keys that are hashed are made of eventuality identities,
  which are hexadecimal digests, and of the separator \<open>$\<close>; they are modelled as \<open>string\<close>,
  whose characters are the code points below 256.  On these code points the encoding
  cannot raise and has two forms: one byte below 128, and the two bytes
  \<open>0xC0 + n div 64\<close>, \<open>0x80 + n mod 64\<close> from 128 on.  The forms of three and four bytes
  and the error for a surrogate belong to code points from 2048 on, which no \<open>string\<close>
  holds.
\<close>

definition utf8_char :: "char \<Rightarrow> 8 word list" where
  "utf8_char c =
     (let n = of_char c :: nat in
      if n < 128 then [of_nat n]
      else [of_nat (192 + n div 64), of_nat (128 + n mod 64)])"

definition encode_utf8 :: "string \<Rightarrow> 8 word list" where
  "encode_utf8 s = concat (map utf8_char s)"

text \<open>
  SHA-1 (FIPS 180-4) on 32-bit words: the message is padded with \<open>0x80\<close>, zeros and its
  bit length as 64 bits; every block of 64 bytes is expanded to 80 words and run through 80
  rounds; \<open>hexdigest\<close> writes the five state words as 40 lower-case hexadecimal digits.
\<close>

definition be_bytes :: "64 word \<Rightarrow> 8 word list" where
  "be_bytes n = map (\<lambda>i. ucast (drop_bit (8 * (7 - i)) n)) [0..<8]"

definition sha1_pad :: "8 word list \<Rightarrow> 8 word list" where
  "sha1_pad m =
     m @ [128] @ replicate ((119 - length m mod 64) mod 64) 0 @ be_bytes (of_nat (8 * length m))"

fun be_word :: "8 word list \<Rightarrow> 32 word" where
  "be_word [] = 0"
| "be_word (b # bs) = push_bit (8 * length bs) (ucast b) OR be_word bs"

fun chunks :: "nat \<Rightarrow> 'a list \<Rightarrow> 'a list list" where
  "chunks n [] = []"
| "chunks n (x # xs) =
     (if n = 0 then [] else take n (x # xs) # chunks n (drop n (x # xs)))"

definition schedule_step :: "32 word list \<Rightarrow> nat \<Rightarrow> 32 word list" where
  "schedule_step w i =
     w @ [word_rotl 1 (w ! (i - 3) XOR w ! (i - 8) XOR w ! (i - 14) XOR w ! (i - 16))]"

definition schedule :: "8 word list \<Rightarrow> 32 word list" where
  "schedule chunk = fold (\<lambda>i w. schedule_step w i) [16..<80] (map be_word (chunks 4 chunk))"

type_synonym sha1_state = "32 word \<times> 32 word \<times> 32 word \<times> 32 word \<times> 32 word"

definition round_f :: "nat \<Rightarrow> 32 word \<Rightarrow> 32 word \<Rightarrow> 32 word \<Rightarrow> 32 word" where
  "round_f i b c d =
     (if i < 20 then (b AND c) OR (NOT b AND d)
      else if i < 40 then b XOR c XOR d
      else if i < 60 then (b AND c) OR (b AND d) OR (c AND d)
      else b XOR c XOR d)"

definition round_k :: "nat \<Rightarrow> 32 word" where
  "round_k i =
     (if i < 20 then 0x5A827999
      else if i < 40 then 0x6ED9EBA1
      else if i < 60 then 0x8F1BBCDC
      else 0xCA62C1D6)"

fun sha1_round :: "32 word list \<Rightarrow> nat \<Rightarrow> sha1_state \<Rightarrow> sha1_state" where
  "sha1_round w i (a, b, c, d, e) =
     (word_rotl 5 a + round_f i b c d + e + round_k i + w ! i, a, word_rotl 30 b, c, d)"

fun sha1_chunk :: "8 word list \<Rightarrow> sha1_state \<Rightarrow> sha1_state" where
  "sha1_chunk chunk (h0, h1, h2, h3, h4) =
     (case fold (sha1_round (schedule chunk)) [0..<80] (h0, h1, h2, h3, h4) of
        (a, b, c, d, e) \<Rightarrow> (h0 + a, h1 + b, h2 + c, h3 + d, h4 + e))"

definition sha1 :: "8 word list \<Rightarrow> sha1_state" where
  "sha1 m = fold sha1_chunk (chunks 64 (sha1_pad m))
     (0x67452301, 0xEFCDAB89, 0x98BADCFE, 0x10325476, 0xC3D2E1F0)"

definition hex_digit :: "32 word \<Rightarrow> char" where
  "hex_digit n = ''0123456789abcdef'' ! unat (n AND 15)"

definition hex_word :: "32 word \<Rightarrow> string" where
  "hex_word w = map (\<lambda>i. hex_digit (drop_bit (4 * (7 - i)) w)) [0..<8]"

fun hexdigest :: "sha1_state \<Rightarrow> string" where
  "hexdigest (h0, h1, h2, h3, h4) = concat (map hex_word [h0, h1, h2, h3, h4])"

section \<open>relation.py: class Relation\<close>

definition generate_rid :: "string \<Rightarrow> string \<Rightarrow> string" where
  "generate_rid heid teid =
     (let key = heid @ ''$'' @ teid in hexdigest (sha1 (encode_utf8 key)))"

text \<open>
  The instance attributes set by \<open>__init__\<close>.  Weights are the numbers stored in the
  \<open>relations\<close> dict; the model only uses their addition and the constant \<open>1.0\<close>, so the
  weight type is any type with \<open>+\<close> and \<open>1\<close>.
\<close>

record 'w relation =
  heid :: string
  teid :: string
  rid :: string
  relations :: "(string, 'w) dict"

text \<open>The argument \<open>x\<close> of \<open>update_relations\<close>, by its run-time type.\<close>

datatype 'w update_arg =
    ArgNone
  | ArgDict "(string, 'w) dict"
  | ArgList "string list"
  | ArgTuple "string list"
  | ArgRelation "'w relation"
  | ArgOther

text \<open>
  The body shared by the three loops:
  \<open>if r not in self.relations: self.relations[r] = cnt else: self.relations[r] += cnt\<close>.
\<close>

definition add_weight :: "(string, 'w::plus) dict \<Rightarrow> string \<Rightarrow> 'w \<Rightarrow> (string, 'w) dict" where
  "add_weight d r cnt =
     (case map_of d r of
        None \<Rightarrow> dict_set d r cnt
      | Some w \<Rightarrow> dict_set d r (w + cnt))"

fun add_items :: "(string, 'w::plus) dict \<Rightarrow> (string \<times> 'w) list \<Rightarrow> (string, 'w) dict" where
  "add_items d [] = d"
| "add_items d ((r, cnt) # items) = add_items (add_weight d r cnt) items"

fun add_labels :: "(string, 'w::{plus,one}) dict \<Rightarrow> string list \<Rightarrow> (string, 'w) dict" where
  "add_labels d [] = d"
| "add_labels d (r # rs) = add_labels (add_weight d r 1) rs"

fun update_relations :: "('w::{plus,one}) relation \<Rightarrow> 'w update_arg \<Rightarrow> 'w relation" where
  "update_relations self ArgNone = self"
| "update_relations self (ArgDict x) = self\<lparr>relations := add_items (relations self) x\<rparr>"
| "update_relations self (ArgList x) = self\<lparr>relations := add_labels (relations self) x\<rparr>"
| "update_relations self (ArgTuple x) = self\<lparr>relations := add_labels (relations self) x\<rparr>"
| "update_relations self (ArgRelation x) =
     (if heid self = heid x \<and> teid self = teid x
      then self\<lparr>relations := add_items (relations self) (relations x)\<rparr>
      else self)"
| "update_relations self ArgOther = self"

text \<open>
  \<open>Relation(heid, teid, relations)\<close>: an argument that is \<open>None\<close> or the empty string
  becomes the empty string.
\<close>

definition Relation :: "string option \<Rightarrow> string option \<Rightarrow> ('w::{plus,one}) update_arg \<Rightarrow> 'w relation" where
  "Relation h t x =
     (let heid' = (case h of None \<Rightarrow> [] | Some s \<Rightarrow> if s \<noteq> [] then s else []);
          teid' = (case t of None \<Rightarrow> [] | Some s \<Rightarrow> if s \<noteq> [] then s else [])
      in update_relations
           \<lparr>heid = heid', teid = teid', rid = generate_rid heid' teid', relations = []\<rparr> x)"

section \<open>The annotations the engine consumes\<close>

text \<open>
  A sentence annotation is a dict; a key that may be absent (\<open>"parse"\<close> in a projection,
  \<open>"ners"\<close>, \<open>"mentions"\<close>) is an optional field; \<open>sent_text\<close> and \<open>sent_lemmas\<close> are the
  keys \<open>"text"\<close> and \<open>"lemmas"\<close>.  Token indices and the bounds of a
  mention are Python integers.
\<close>

record mention =
  mention_start :: int
  mention_end :: int
  mention_type :: string

record sentence =
  tokens :: "string list"
  pos_tags :: "string list"
  sent_lemmas :: "string list"
  dependencies :: "(int \<times> string \<times> int) list"
  sent_text :: string
  parse :: "string option"
  ners :: "string list option"
  mentions :: "mention list option"

text \<open>
  An argument of a connective is \<open>{"sent_idx": ..., "indices": [...]}\<close>; a connective has
  the same two keys and, when the classifiers found them, \<open>"arg1"\<close>, \<open>"arg2"\<close> and
  \<open>"sense"\<close>.
\<close>

record span =
  sent_idx :: int
  indices :: "int list"

record connective = span +
  arg1 :: "span option"
  arg2 :: "span option"
  sense :: "string option"

section \<open>aser_extractor.py: projecting a sentence on an argument span\<close>

text \<open>\<open>d[k]\<close> on a dict.\<close>

definition subscript :: "('k, 'v) dict \<Rightarrow> 'k \<Rightarrow> error + 'v" where
  "subscript d k = (case map_of d k of None \<Rightarrow> Inl KeyError | Some v \<Rightarrow> Inr v)"

text \<open>\<open>{j: i for i, j in enumerate(indices)}\<close>\<close>

definition idx_mapping :: "int list \<Rightarrow> (int, nat) dict" where
  "idx_mapping S = fold (\<lambda>(i, j) m. dict_set m j i) (enumerate 0 S) []"

text \<open>
  \<open>[(idx_mapping[dep[0]], dep[1], idx_mapping[dep[2]]) for dep in dependencies
     if dep[0] in indices_set and dep[2] in indices_set]\<close>
\<close>

definition project_dependencies ::
  "int list \<Rightarrow> (int \<times> string \<times> int) list \<Rightarrow> error + (int \<times> string \<times> int) list" where
  "project_dependencies S deps =
     for_each
       (\<lambda>dep. and_then (subscript (idx_mapping S) (fst dep)) (\<lambda>governor.
               and_then (subscript (idx_mapping S) (snd (snd dep))) (\<lambda>dependent.
               Inr (int governor, fst (snd dep), int dependent))))
       (filter (\<lambda>dep. fst dep \<in> set S \<and> snd (snd dep) \<in> set S) deps)"

text \<open>
  The loop over the mentions: a mention is skipped (\<open>continue\<close>) unless \<open>bisect_left\<close>
  finds its start, and then its last token, at an index of the span.
\<close>

fun project_mentions :: "int list \<Rightarrow> mention list \<Rightarrow> mention list" where
  "project_mentions S [] = []"
| "project_mentions S (m # ms) =
     (let start_idx = bisect_left S (mention_start m)
      in if \<not> (start_idx < length S \<and> S ! start_idx = mention_start m)
         then project_mentions S ms
         else
           (let end_idx = bisect_left S (mention_end m - 1)
            in if \<not> (end_idx < length S \<and> S ! end_idx = mention_end m - 1)
               then project_mentions S ms
               else m\<lparr>mention_start := int start_idx, mention_end := int end_idx + 1\<rparr>
                      # project_mentions S ms))"

text \<open>
  The dict \<open>arg1_parsed_result\<close> (and \<open>arg2_parsed_result\<close>, built by the same code) of
  \<open>extract_from_parsed_result\<close>: the entries are evaluated in the order of the source, and
  an index outside a list raises IndexError.
\<close>

definition project_argument :: "sentence \<Rightarrow> int list \<Rightarrow> error + sentence" where
  "project_argument sent S =
     and_then (project_dependencies S (dependencies sent)) (\<lambda>deps.
     and_then (for_each (getitem (tokens sent)) S) (\<lambda>toks.
     and_then (for_each (getitem (pos_tags sent)) S) (\<lambda>tags.
     and_then (for_each (getitem (sent_lemmas sent)) S) (\<lambda>lems.
     and_then (case ners sent of
                 None \<Rightarrow> Inr None
               | Some ns \<Rightarrow> and_then (for_each (getitem ns) S) (\<lambda>ns'. Inr (Some ns'))) (\<lambda>ners'.
     Inr \<lparr>tokens = toks, pos_tags = tags, sent_lemmas = lems, dependencies = deps,
          sent_text = [], parse = None, ners = ners',
          mentions = map_option (project_mentions S) (mentions sent)\<rparr>)))))"

text \<open>
  The dict \<open>clause_parsed_result\<close> of \<open>extract_eventualities_from_parsed_result\<close>: the same
  without named entities and mentions.
\<close>

definition project_clause :: "sentence \<Rightarrow> int list \<Rightarrow> error + sentence" where
  "project_clause sent clause =
     and_then (project_dependencies clause (dependencies sent)) (\<lambda>deps.
     and_then (for_each (getitem (tokens sent)) clause) (\<lambda>toks.
     and_then (for_each (getitem (pos_tags sent)) clause) (\<lambda>tags.
     and_then (for_each (getitem (sent_lemmas sent)) clause) (\<lambda>lems.
     Inr \<lparr>tokens = toks, pos_tags = tags, sent_lemmas = lems, dependencies = deps,
          sent_text = [], parse = None, ners = None, mentions = None\<rparr>))))"

text \<open>
  The position of \<open>x\<close> in a span, and a span as the projection expects it: token indices of
  the sentence, in ascending order, none twice.
\<close>

definition position_in :: "int list \<Rightarrow> int \<Rightarrow> nat" where
  "position_in S x = length (takeWhile (\<lambda>y. y \<noteq> x) S)"

definition valid_span :: "sentence \<Rightarrow> int list \<Rightarrow> bool" where
  "valid_span sent S \<longleftrightarrow>
     sorted S \<and> distinct S
     \<and> (\<forall>i \<in> set S. 0 \<le> i \<and> i < int (length (tokens sent)))
     \<and> length (pos_tags sent) = length (tokens sent)
     \<and> length (sent_lemmas sent) = length (tokens sent)
     \<and> (case ners sent of None \<Rightarrow> True | Some ns \<Rightarrow> length ns = length (tokens sent))"

section \<open>Collaborators of the engine\<close>

text \<open>
  Modelled from the spec: class \<open>Eventuality\<close> (\<open>aser/eventuality.py\<close> is not among the
  sources).  An eventuality has its identity \<open>eid\<close>, its pattern and the lemma/POS signature
  of its member tokens, the mapping \<open>raw_sent_mapping\<close> from its own token positions to
  positions of the sentence, and a frequency counter; merging two eventualities of the same
  \<open>eid\<close> adds the counters.
\<close>

record eventuality =
  eid :: string
  pattern :: string
  signature :: "(string \<times> string) list"
  raw_sent_mapping :: "(int, int) dict"
  frequency :: real

definition Eventuality_update :: "eventuality \<Rightarrow> eventuality \<Rightarrow> eventuality" where
  "Eventuality_update self x =
     (if eid self = eid x then self\<lparr>frequency := frequency self + frequency x\<rparr> else self)"

text \<open>
  Modelled from the spec: \<open>DiscourseRelationExtractor._match_argument_eventuality_by_Simpson\<close>
  (\<open>aser/extract/relation_extractor.py\<close> is not among the sources): the overlap coefficient
  of the token indices of the argument and those of the eventuality, compared with the
  threshold.  The sentence annotation plays no role in the coefficient.
\<close>

definition match_argument_eventuality_by_Simpson ::
  "'i \<Rightarrow> span \<Rightarrow> eventuality \<Rightarrow> real \<Rightarrow> bool" where
  "match_argument_eventuality_by_Simpson sent argument e threshold =
     (let A = set (indices argument); B = snd ` set (raw_sent_mapping e)
      in threshold \<le> real (card (A \<inter> B)) / real (min (card A) (card B)))"

text \<open>
  The discourse parser: the five stages that \<open>extract_relations_from_parsed_result\<close> and
  \<open>extract_from_parsed_result\<close> run one after the other.  They are not part of the engine;
  each is a function of the sentences (and of the connectives found so far) that may raise.
\<close>

record 'i discourse_parser =
  conn_extractor :: "'i list \<Rightarrow> error + connective list"
  argpos_classifier :: "'i list \<Rightarrow> connective list \<Rightarrow> error + connective list \<times> connective list"
  ss_extractor :: "'i list \<Rightarrow> connective list \<Rightarrow> error + connective list"
  ps_extractor :: "'i list \<Rightarrow> connective list \<Rightarrow> error + connective list"
  explicit_classifier :: "'i list \<Rightarrow> connective list \<Rightarrow> error + connective list"

text \<open>
  \<open>connectives.sort(key=lambda x: (x["sent_idx"], x["indices"][0] if len(x["indices"]) > 0
  else -1))\<close>; the sort is stable.
\<close>

definition connective_key :: "connective \<Rightarrow> int \<times> int" where
  "connective_key x = (sent_idx x, if length (indices x) > 0 then hd (indices x) else - 1)"

definition run_discourse_parser :: "'i discourse_parser \<Rightarrow> 'i list \<Rightarrow> error + connective list" where
  "run_discourse_parser parser sentences =
     and_then (conn_extractor parser sentences) (\<lambda>connectives.
     and_then (argpos_classifier parser sentences connectives) (\<lambda>(SS_connectives, PS_connectives).
     and_then (ss_extractor parser sentences SS_connectives) (\<lambda>SS_connectives.
     and_then (ps_extractor parser sentences PS_connectives) (\<lambda>PS_connectives.
     and_then (explicit_classifier parser sentences (SS_connectives @ PS_connectives)) (\<lambda>connectives.
     Inr (sort_key connective_key connectives))))))"

section \<open>aser_extractor.py: looking a relation up in a bucket\<close>

text \<open>
  A \<open>for\<close> loop whose body may raise: the state is passed from one round to the next, and
  an exception ends the loop.
\<close>

fun for_loop :: "'a list \<Rightarrow> 's \<Rightarrow> ('a \<Rightarrow> 's \<Rightarrow> error + 's) \<Rightarrow> error + 's" where
  "for_loop [] s body = Inr s"
| "for_loop (x # xs) s body = and_then (body x s) (\<lambda>s'. for_loop xs s' body)"

text \<open>
  \<open>relation.name\<close> on an instance of class Relation of \<open>relation.py\<close>: the four attributes
  that \<open>__init__\<close> sets and the four methods of the class.  Any other name raises
  AttributeError (the names of the object protocol, with their two leading underscores, are
  left out: the engine reads none of them).
\<close>

datatype 'w attribute =
    StrValue string
  | DictValue "(string, 'w) dict"
  | BoundMethod string

definition getattr :: "'w relation \<Rightarrow> string \<Rightarrow> error + 'w attribute" where
  "getattr relation name =
     (if name = ''heid'' then Inr (StrValue (heid relation))
      else if name = ''teid'' then Inr (StrValue (teid relation))
      else if name = ''rid'' then Inr (StrValue (rid relation))
      else if name = ''relations'' then Inr (DictValue (relations relation))
      else if name \<in> set [''generate_rid'', ''update_relations'', ''to_dict'', ''from_dict'']
      then Inr (BoundMethod name)
      else Inl (AttributeError name))"

text \<open>
  \<open>relation.name(x)\<close>, the call of a method that updates the relation with \<open>x\<close>: the
  attribute is looked up first.  Of the attributes of a Relation, \<open>update_relations\<close> is the
  method that takes such an argument.  The engine makes this call with no other attribute
  that exists; the model gives TypeError for them (a string or a dict is not callable, and
  the other methods take other arguments).
\<close>

definition call_method ::
  "('w::{plus,one}) relation \<Rightarrow> string \<Rightarrow> 'w update_arg \<Rightarrow> error + 'w relation" where
  "call_method relation name x =
     and_then (getattr relation name) (\<lambda>f.
       if f = BoundMethod ''update_relations'' then Inr (update_relations relation x)
       else Inl TypeError)"

text \<open>
  \<open>relation.to_triples()\<close> and \<open>relation.to_triple()\<close>: class Relation has no attribute of
  either name, so the lookup raises and the shape of a triple plays no role.
\<close>

type_synonym triple = "string \<times> string \<times> string"

definition call_triples :: "'w relation \<Rightarrow> string \<Rightarrow> error + triple list" where
  "call_triples relation name = and_then (getattr relation name) (\<lambda>f. Inl TypeError)"

text \<open>
  The loop \<open>for relation in relations: if relation.hid == heid and relation.tid == teid:
  relation.update(senses); existed_relation = True; break\<close>.  The result is the bucket with
  the relation updated, or \<open>None\<close> when \<open>existed_relation\<close> stays \<open>False\<close>.
\<close>

fun update_existing ::
  "('w::{plus,one}) relation list \<Rightarrow> string \<Rightarrow> string \<Rightarrow> string list
     \<Rightarrow> error + 'w relation list option" where
  "update_existing [] h t senses = Inr None"
| "update_existing (relation # rest) h t senses =
     and_then (getattr relation ''hid'') (\<lambda>hid.
     and_then (if hid = StrValue h
               then and_then (getattr relation ''tid'') (\<lambda>tid. Inr (tid = StrValue t))
               else Inr False) (\<lambda>same.
       if same
       then and_then (call_method relation ''update'' (ArgList senses)) (\<lambda>relation'.
              Inr (Some (relation' # rest)))
       else and_then (update_existing rest h t senses) (\<lambda>found.
              Inr (map_option (\<lambda>rest'. relation # rest') found))))"

text \<open>\<open>if not existed_relation: relations.append(Relation(heid, teid, senses))\<close>\<close>

definition lookup_or_create ::
  "('w::{plus,one}) relation list \<Rightarrow> string \<Rightarrow> string \<Rightarrow> string list
     \<Rightarrow> error + 'w relation list" where
  "lookup_or_create relations_in_bucket h t senses =
     and_then (update_existing relations_in_bucket h t senses) (\<lambda>found.
       case found of
         Some updated \<Rightarrow> Inr updated
       | None \<Rightarrow> Inr (relations_in_bucket @ [Relation (Some h) (Some t) (ArgList senses)]))"

section \<open>aser_extractor.py: DiscourseASERExtractor3.extract_relations_from_parsed_result\<close>

text \<open>
  The function takes \<open>len(parsed_result)\<close>, iterates over \<open>parsed_result\<close> and subscripts it
  with sentence indices, whatever its type is: the argument is a sized iterable of items
  (for a list or tuple its sentences, for a string its characters, for a dict its keys), or
  an object without a length.  Subscripting a dict with a sentence index raises KeyError.
\<close>

datatype sequence_type = IsList | IsTuple | IsStr | IsDict

datatype 'i sized = Sized sequence_type "'i list" | Unsized

fun len :: "'i sized \<Rightarrow> error + nat" where
  "len (Sized ty items) = Inr (length items)"
| "len Unsized = Inl TypeError"

fun iterate :: "'i sized \<Rightarrow> 'i list" where
  "iterate (Sized ty items) = items"
| "iterate Unsized = []"

fun sentence_at :: "'i sized \<Rightarrow> int \<Rightarrow> error + 'i" where
  "sentence_at (Sized ty items) i = (if ty = IsDict then Inl KeyError else getitem items i)"
| "sentence_at Unsized i = Inl TypeError"

text \<open>
  \<open>xs[i].append(...)\<close> through the alias \<open>relations = xs[i]\<close>: the list at the index
  \<open>i\<close> (counted from the end when negative) is replaced by its new value.
\<close>

definition setitem :: "'a list \<Rightarrow> int \<Rightarrow> 'a \<Rightarrow> 'a list" where
  "setitem xs i v = (if 0 \<le> i then xs[nat i := v] else xs[nat (int (length xs) + i) := v])"

text \<open>What the function returns: a list of buckets, or one flat list.\<close>

datatype 'a extracted = Buckets "'a list list" | Flat "'a list"

datatype 'w relation_item = AsRelation "'w relation" | AsTriple triple | AsTriples "triple list"

text \<open>
  The two loops over \<open>e1_idx\<close> and \<open>e2_idx\<close> that append the relation
  \<open>Relation(heid, teid, ["Co_Occurrence"])\<close> for every pair of eventualities of a sentence.
\<close>

definition co_occurrence_relations ::
  "eventuality list \<Rightarrow> ('w::{plus,one}) relation list \<Rightarrow> 'w relation list" where
  "co_occurrence_relations sent_eventualities relations_in_sent =
     fold (\<lambda>e1_idx relations_in_sent.
             fold (\<lambda>e2_idx relations_in_sent.
                     relations_in_sent @
                       [Relation (Some (eid (sent_eventualities ! e1_idx)))
                          (Some (eid (sent_eventualities ! e2_idx))) (ArgList [''Co_Occurrence''])])
               [e1_idx + 1 ..< length sent_eventualities] relations_in_sent)
       [0 ..< length sent_eventualities - 1] relations_in_sent"

text \<open>
  The first loop, over \<open>enumerate(zip(parsed_result, para_eventualities))\<close>, with \<open>i\<close> for
  the sentence index \<open>sent_idx\<close>.  Its state is
  \<open>filtered_parsed_result\<close>, \<open>para_relations\<close> and the loop variable \<open>sent_parsed_result\<close>,
  which stays bound after the loop and is read again in the second loop.
\<close>

type_synonym ('i, 'w) relation_state = "'i list \<times> 'w relation list list \<times> 'i option"

definition baseline_step ::
  "'i \<Rightarrow> nat \<times> 'i \<times> eventuality list \<Rightarrow> ('i, 'w::{plus,one}) relation_state
     \<Rightarrow> ('i, 'w) relation_state" where
  "baseline_step EMPTY_SENT_PARSED_RESULT x state =
     (case (x, state) of
        ((i, sent_parsed_result, sent_eventualities),
         (filtered_parsed_result, para_relations, _)) \<Rightarrow>
          if length sent_eventualities > 0
          then (filtered_parsed_result @ [sent_parsed_result],
                para_relations
                  [i := co_occurrence_relations sent_eventualities (para_relations ! i)],
                Some sent_parsed_result)
          else (filtered_parsed_result @ [EMPTY_SENT_PARSED_RESULT], para_relations,
                Some sent_parsed_result))"

definition baseline ::
  "'i \<Rightarrow> 'i list \<Rightarrow> eventuality list list \<Rightarrow> nat \<Rightarrow> ('i, 'w::{plus,one}) relation_state" where
  "baseline EMPTY_SENT_PARSED_RESULT sentences para_eventualities len_sentences =
     fold (baseline_step EMPTY_SENT_PARSED_RESULT)
       (zip [0 ..< length sentences] (zip sentences para_eventualities))
       ([], replicate (2 * len_sentences - 1) [], None)"

text \<open>Reading a local variable that no assignment has bound yet.\<close>

definition bound :: "string \<Rightarrow> 'a option \<Rightarrow> error + 'a" where
  "bound name v = (case v of None \<Rightarrow> Inl (NameError name) | Some x \<Rightarrow> Inr x)"

text \<open>
  The body of the second loop, for one connective with a non-empty span, both arguments and
  a sense other than \<open>"None"\<close>.  The state is \<open>para_relations\<close> and the variable
  \<open>sent_parsed_result\<close>: the branch for two sentences passes it to the matcher as the
  source does, where it still holds the sentence of an earlier assignment.
\<close>

definition same_sentence_relations ::
  "('i \<Rightarrow> span \<Rightarrow> eventuality \<Rightarrow> real \<Rightarrow> bool) \<Rightarrow> 'i \<Rightarrow> eventuality list \<Rightarrow> span \<Rightarrow> span
     \<Rightarrow> string \<Rightarrow> ('w::{plus,one}) relation list \<Rightarrow> error + 'w relation list" where
  "same_sentence_relations matches sent_parsed_result sent_eventualities a1 a2 s relations_in_bucket =
     for_loop [0 ..< length sent_eventualities - 1] relations_in_bucket (\<lambda>e1_idx relations_in_bucket.
       let e1 = sent_eventualities ! e1_idx
       in if \<not> matches sent_parsed_result a1 e1 (99 / 100) then Inr relations_in_bucket
          else for_loop [e1_idx + 1 ..< length sent_eventualities] relations_in_bucket
                 (\<lambda>e2_idx relations_in_bucket.
                    let e2 = sent_eventualities ! e2_idx
                    in if \<not> matches sent_parsed_result a2 e2 (99 / 100) then Inr relations_in_bucket
                       else lookup_or_create relations_in_bucket (eid e1) (eid e2) [s]))"

definition two_sentence_relations ::
  "('i \<Rightarrow> span \<Rightarrow> eventuality \<Rightarrow> real \<Rightarrow> bool) \<Rightarrow> 'i option \<Rightarrow> eventuality list
     \<Rightarrow> eventuality list \<Rightarrow> span \<Rightarrow> span
     \<Rightarrow> string \<Rightarrow> ('w::{plus,one}) relation list \<Rightarrow> error + 'w relation list" where
  "two_sentence_relations matches leaked sent_eventualities1 sent_eventualities2 a1 a2 s
       relations_in_bucket =
     for_loop sent_eventualities1 relations_in_bucket (\<lambda>e1 relations_in_bucket.
       and_then (bound ''sent_parsed_result'' leaked) (\<lambda>sent_parsed_result.
       if \<not> matches sent_parsed_result a1 e1 (99 / 100) then Inr relations_in_bucket
       else for_loop sent_eventualities2 relations_in_bucket (\<lambda>e2 relations_in_bucket.
              if \<not> matches sent_parsed_result a2 e2 (99 / 100) then Inr relations_in_bucket
              else lookup_or_create relations_in_bucket (eid e1) (eid e2) [s])))"

definition relations_of_connective ::
  "('i \<Rightarrow> span \<Rightarrow> eventuality \<Rightarrow> real \<Rightarrow> bool) \<Rightarrow> 'i sized \<Rightarrow> eventuality list list \<Rightarrow> nat
     \<Rightarrow> connective \<Rightarrow> ('w::{plus,one}) relation list list \<times> 'i option
     \<Rightarrow> error + 'w relation list list \<times> 'i option" where
  "relations_of_connective matches parsed_result para_eventualities len_sentences connective state =
     (case (state, arg1 connective, arg2 connective, sense connective) of
        ((para_relations, leaked), Some a1, Some a2, Some s) \<Rightarrow>
          if indices connective \<noteq> [] \<and> s \<noteq> [] \<and> s \<noteq> ''None''
          then
            (if sent_idx a1 = sent_idx a2
             then
               and_then (getitem para_relations (sent_idx a1)) (\<lambda>relations_in_bucket.
               and_then (sentence_at parsed_result (sent_idx a1)) (\<lambda>sent_parsed_result.
               and_then (getitem para_eventualities (sent_idx a1)) (\<lambda>sent_eventualities.
               and_then (same_sentence_relations matches sent_parsed_result sent_eventualities
                           a1 a2 s relations_in_bucket) (\<lambda>relations_in_bucket.
               Inr (setitem para_relations (sent_idx a1) relations_in_bucket,
                    Some sent_parsed_result)))))
             else
               and_then (getitem para_relations (sent_idx a1 + int len_sentences))
                 (\<lambda>relations_in_bucket.
               and_then (sentence_at parsed_result (sent_idx a1)) (\<lambda>sent_parsed_result1.
               and_then (getitem para_eventualities (sent_idx a1)) (\<lambda>sent_eventualities1.
               and_then (sentence_at parsed_result (sent_idx a2)) (\<lambda>sent_parsed_result2.
               and_then (getitem para_eventualities (sent_idx a2)) (\<lambda>sent_eventualities2.
               and_then (two_sentence_relations matches leaked sent_eventualities1
                           sent_eventualities2 a1 a2 s relations_in_bucket) (\<lambda>relations_in_bucket.
               Inr (setitem para_relations (sent_idx a1 + int len_sentences) relations_in_bucket,
                    leaked))))))))
          else Inr state
      | _ \<Rightarrow> Inr state)"

text \<open>
  The merged output of this function:
  \<open>if relation.rid not in rid2relation: rid2relation[relation.rid] = deeocopy(relation)\<close>
  \<open>else: rid2relation[relation.rid].update(relation)\<close>.  The names that the module binds are
  those it imports and its classes; \<open>deeocopy\<close> is not one of them, nor a builtin.
\<close>

definition module_names :: "string list" where
  "module_names =
     [''bisect'', ''json'', ''copy'', ''deepcopy'', ''chain'', ''Eventuality'', ''Relation'',
      ''relation_senses'', ''SeedRuleEventualityExtractor'', ''DiscourseEventualityExtractor'',
      ''SeedRuleRelationExtractor'', ''DiscourseRelationExtractor'', ''ConnectiveExtractor'',
      ''ArgumentPositionClassifier'', ''SSArgumentExtractor'', ''PSArgumentExtractor'',
      ''ExplicitSenseClassifier'', ''SyntaxTree'', ''parse_sentense_with_stanford'',
      ''get_corenlp_client'', ''powerset'', ''get_clauses'', ''ANNOTATORS'',
      ''EMPTY_SENT_PARSED_RESULT'', ''BaseASERExtractor'', ''SeedRuleASERExtractor'',
      ''DiscourseASERExtractor1'', ''DiscourseASERExtractor2'', ''DiscourseASERExtractor3'']"

text \<open>
  \<open>name(x)\<close> where a copy of \<open>x\<close> is meant: \<open>copy\<close> and \<open>deepcopy\<close> return the copy (a value is
  its own copy), and a name that is not bound raises NameError.  No other name of the module
  is called this way; the model gives TypeError for them.
\<close>

definition call_copy :: "string \<Rightarrow> 'a \<Rightarrow> error + 'a" where
  "call_copy name x =
     (if name \<notin> set module_names then Inl (NameError name)
      else if name = ''copy'' \<or> name = ''deepcopy'' then Inr x
      else Inl TypeError)"

definition merge_by_rid ::
  "string \<Rightarrow> ('w::{plus,one}) relation list \<Rightarrow> error + (string, 'w relation) dict" where
  "merge_by_rid copy_name all_relations =
     for_loop all_relations [] (\<lambda>relation rid2relation.
       case map_of rid2relation (rid relation) of
         None \<Rightarrow> and_then (call_copy copy_name relation) (\<lambda>copied.
                   Inr (dict_set rid2relation (rid relation) copied))
       | Some existing \<Rightarrow>
           and_then (call_method existing ''update'' (ArgRelation relation)) (\<lambda>updated.
             Inr (dict_set rid2relation (rid relation) updated)))"

definition extract_relations_from_parsed_result ::
  "'i discourse_parser \<Rightarrow> ('i \<Rightarrow> span \<Rightarrow> eventuality \<Rightarrow> real \<Rightarrow> bool) \<Rightarrow> 'i
     \<Rightarrow> 'i sized \<Rightarrow> eventuality list list \<Rightarrow> string \<Rightarrow> bool
     \<Rightarrow> error + ('w::{plus,one}) relation_item extracted" where
  "extract_relations_from_parsed_result parser matches EMPTY_SENT_PARSED_RESULT
       parsed_result para_eventualities output_format in_order =
     (if output_format \<notin> set [''Relation'', ''triple''] then Inl NotImplementedError
      else
        and_then (len parsed_result) (\<lambda>len_sentences.
        if len_sentences = 0 then (if in_order then Inr (Buckets [[]]) else Inr (Flat []))
        else
          (case baseline EMPTY_SENT_PARSED_RESULT (iterate parsed_result) para_eventualities
                  len_sentences of
             (filtered_parsed_result, para_relations, leaked) \<Rightarrow>
               and_then (run_discourse_parser parser filtered_parsed_result) (\<lambda>connectives.
               and_then (for_loop connectives (para_relations, leaked)
                           (relations_of_connective matches parsed_result para_eventualities
                              len_sentences)) (\<lambda>(para_relations, leaked).
               if in_order
               then
                 (if output_format = ''Relation''
                  then Inr (Buckets (map (map AsRelation) para_relations))
                  else and_then
                         (for_each (\<lambda>relations_in_bucket.
                            and_then (for_each (\<lambda>r. call_triples r ''to_triples'')
                                        relations_in_bucket) (\<lambda>triples.
                            Inr (map AsTriple (sort (concat triples))))) para_relations)
                         (\<lambda>buckets. Inr (Buckets buckets)))
               else
                 (if output_format = ''Relation''
                  then and_then (merge_by_rid ''deeocopy'' (concat para_relations))
                         (\<lambda>rid2relation.
                            Inr (Flat (map AsRelation (sort_key rid (map snd rid2relation)))))
                  else and_then (for_each (\<lambda>r. call_triples r ''to_triples'')
                                   (concat para_relations)) (\<lambda>triples.
                         Inr (Flat (map AsTriples (sort triples))))))))))"

section \<open>aser_extractor.py: DiscourseASERExtractor3.extract_from_parsed_result\<close>

text \<open>
  The argument \<open>parsed_result\<close> by its run-time type, as the \<open>isinstance\<close> tests see it:
  a dict (one sentence), a list or a tuple of sentences, or any other object.
\<close>

datatype 's parsed = PyDict 's | PyList "'s list" | PyTuple "'s list" | PyOther

text \<open>
  An eventuality is returned as the object or as its encoding
  (\<open>eventuality.encode(encoding=None)\<close>).  Modelled from the spec: the encoding, which is
  field for field and lossless, so that \<open>e["eid"]\<close> of the encoding is the \<open>eid\<close>.
\<close>

datatype eventuality_item = AsEventuality eventuality | AsJson eventuality

fun item_eid :: "eventuality_item \<Rightarrow> string" where
  "item_eid (AsEventuality e) = eid e"
| "item_eid (AsJson e) = eid e"

text \<open>
  \<open>for k, v in e.raw_sent_mapping.items(): e.raw_sent_mapping[k] = indices[v]\<close>, and then
  \<open>e.eid = Eventuality.generate_eid(e)\<close>.
\<close>

definition remap_raw_sent_mapping :: "int list \<Rightarrow> eventuality \<Rightarrow> error + eventuality" where
  "remap_raw_sent_mapping S e =
     and_then (for_each (\<lambda>(k, v). and_then (getitem S v) (\<lambda>v'. Inr (k, v'))) (raw_sent_mapping e))
       (\<lambda>m. Inr (e\<lparr>raw_sent_mapping := m\<rparr>))"

text \<open>
  The loop over the eventualities of one argument.  Each is remapped and gets its new
  \<open>eid\<close>; it is appended to the list of its sentence unless one of the entries that the list
  had before the loop has the same \<open>eid\<close> and an equal \<open>raw_sent_mapping\<close> (two dicts are
  equal when they have the same items).  The state is the list of the remapped eventualities
  and the list of the sentence.
\<close>

definition insert_eventualities ::
  "(eventuality \<Rightarrow> string) \<Rightarrow> int list \<Rightarrow> eventuality list \<Rightarrow> eventuality list
     \<Rightarrow> error + eventuality list \<times> eventuality list" where
  "insert_eventualities generate_eid S eventualities existing =
     for_loop eventualities ([], existing) (\<lambda>e (remapped, sent_eventualities).
       and_then (remap_raw_sent_mapping S e) (\<lambda>e.
       let e = e\<lparr>eid := generate_eid e\<rparr>;
           existed_eventuality =
             list_ex (\<lambda>x. eid x = eid e \<and> set (raw_sent_mapping x) = set (raw_sent_mapping e))
               existing
       in Inr (remapped @ [e],
               if \<not> existed_eventuality then sent_eventualities @ [e] else sent_eventualities)))"

text \<open>
  The part of the loop body that is run for each of the two arguments: the sentence is
  projected on the argument, the eventuality extractor is run on the projection, and the
  eventualities are inserted.
\<close>

definition eventualities_of_argument ::
  "(sentence \<Rightarrow> error + eventuality list) \<Rightarrow> (eventuality \<Rightarrow> string) \<Rightarrow> sentence \<Rightarrow> span
     \<Rightarrow> eventuality list list \<Rightarrow> error + eventuality list \<times> eventuality list list" where
  "eventualities_of_argument eventuality_extractor generate_eid sent_parsed_result a
       para_eventualities =
     and_then (project_argument sent_parsed_result (indices a)) (\<lambda>arg_parsed_result.
     and_then (eventuality_extractor arg_parsed_result) (\<lambda>eventualities.
     and_then (getitem para_eventualities (sent_idx a)) (\<lambda>existing.
     and_then (insert_eventualities generate_eid (indices a) eventualities existing)
       (\<lambda>(eventualities, sent_eventualities).
     Inr (eventualities, setitem para_eventualities (sent_idx a) sent_eventualities)))))"

text \<open>\<open>for e1 in eventualities1: for e2 in eventualities2:\<close> look up or create.\<close>

definition argument_relations ::
  "eventuality list \<Rightarrow> eventuality list \<Rightarrow> string list \<Rightarrow> ('w::{plus,one}) relation list
     \<Rightarrow> error + 'w relation list" where
  "argument_relations eventualities1 eventualities2 senses relations_in_bucket =
     for_loop eventualities1 relations_in_bucket (\<lambda>e1 relations_in_bucket.
       for_loop eventualities2 relations_in_bucket (\<lambda>e2 relations_in_bucket.
         lookup_or_create relations_in_bucket (eid e1) (eid e2) senses))"

text \<open>The body of the loop over the connectives.\<close>

definition connective_step ::
  "(sentence \<Rightarrow> error + eventuality list) \<Rightarrow> (eventuality \<Rightarrow> string) \<Rightarrow> sentence list \<Rightarrow> nat
     \<Rightarrow> connective \<Rightarrow> eventuality list list \<times> ('w::{plus,one}) relation list list
     \<Rightarrow> error + eventuality list list \<times> 'w relation list list" where
  "connective_step eventuality_extractor generate_eid parsed_result len_sentences connective state =
     (case (state, arg1 connective, arg2 connective) of
        ((para_eventualities, para_relations), Some a1, Some a2) \<Rightarrow>
          if indices connective \<noteq> []
          then
            and_then (getitem parsed_result (sent_idx a1)) (\<lambda>sent_parsed_result1.
            and_then (getitem parsed_result (sent_idx a2)) (\<lambda>sent_parsed_result2.
            and_then (eventualities_of_argument eventuality_extractor generate_eid
                        sent_parsed_result1 a1 para_eventualities)
              (\<lambda>(eventualities1, para_eventualities).
            and_then (eventualities_of_argument eventuality_extractor generate_eid
                        sent_parsed_result2 a2 para_eventualities)
              (\<lambda>(eventualities2, para_eventualities).
            if sent_idx a1 \<noteq> sent_idx a2 \<and> sent_idx a1 + 1 \<noteq> sent_idx a2
            then Inr (para_eventualities, para_relations)
            else
              (let relation_list_idx =
                     (if sent_idx a1 = sent_idx a2 then sent_idx a1
                      else sent_idx a1 + int len_sentences);
                   senses =
                     (if sent_idx a1 = sent_idx a2 then [''Co_Occurrence''] else []) @
                     (case sense connective of
                        None \<Rightarrow> []
                      | Some s \<Rightarrow> if s \<noteq> [] \<and> s \<noteq> ''None'' then [s] else [])
               in if length senses = 0 then Inr (para_eventualities, para_relations)
                  else
                    and_then (getitem para_relations relation_list_idx) (\<lambda>relations_in_bucket.
                    and_then (argument_relations eventualities1 eventualities2 senses
                                relations_in_bucket) (\<lambda>relations_in_bucket.
                    Inr (para_eventualities,
                         setitem para_relations relation_list_idx relations_in_bucket))))))))
          else Inr state
      | _ \<Rightarrow> Inr state)"

text \<open>
  The merged eventualities: \<open>eid2eventuality\<close> is filled in the order of the eventualities,
  an \<open>eid\<close> seen before is updated with \<open>Eventuality.update\<close>.
\<close>

definition merge_by_eid :: "eventuality list \<Rightarrow> (string, eventuality) dict" where
  "merge_by_eid all_eventualities =
     fold (\<lambda>e eid2eventuality.
             case map_of eid2eventuality (eid e) of
               None \<Rightarrow> dict_set eid2eventuality (eid e) e
             | Some existing \<Rightarrow> dict_set eid2eventuality (eid e) (Eventuality_update existing e))
       all_eventualities []"

definition merged_eventualities :: "string \<Rightarrow> eventuality list list \<Rightarrow> eventuality_item list" where
  "merged_eventualities eventuality_output_format para_eventualities =
     (let eid2eventuality = merge_by_eid (concat para_eventualities)
      in if eventuality_output_format = ''Eventuality''
         then map AsEventuality (sort_key eid (map snd eid2eventuality))
         else sort_key item_eid (map AsJson (map snd eid2eventuality)))"

definition ordered_eventualities :: "string \<Rightarrow> eventuality list list \<Rightarrow> eventuality_item list list" where
  "ordered_eventualities eventuality_output_format para_eventualities =
     (if eventuality_output_format = ''json'' then map (map AsJson) para_eventualities
      else map (map AsEventuality) para_eventualities)"

definition extract_from_parsed_result ::
  "sentence discourse_parser \<Rightarrow> (sentence \<Rightarrow> error + eventuality list) \<Rightarrow> (eventuality \<Rightarrow> string)
     \<Rightarrow> sentence parsed \<Rightarrow> string \<Rightarrow> string \<Rightarrow> bool
     \<Rightarrow> error + eventuality_item extracted \<times> ('w::{plus,one}) relation_item extracted" where
  "extract_from_parsed_result parser eventuality_extractor generate_eid parsed_result
       eventuality_output_format relation_output_format in_order =
     (if eventuality_output_format \<notin> set [''Eventuality'', ''json''] then Inl NotImplementedError
      else if relation_output_format \<notin> set [''Relation'', ''triple''] then Inl NotImplementedError
      else
        (case (case parsed_result of
                 PyOther \<Rightarrow> Inl NotImplementedError
               | PyDict sent \<Rightarrow> Inr (True, [sent])
               | PyList sents \<Rightarrow> Inr (False, sents)
               | PyTuple sents \<Rightarrow> Inr (False, sents)) of
           Inl e \<Rightarrow> Inl e
         | Inr (is_single_sent, parsed_result) \<Rightarrow>
            (let len_sentences = length parsed_result
             in and_then (run_discourse_parser parser parsed_result) (\<lambda>connectives.
                and_then (for_loop connectives
                            (replicate len_sentences [], replicate (2 * len_sentences - 1) [])
                            (connective_step eventuality_extractor generate_eid parsed_result
                               len_sentences)) (\<lambda>(para_eventualities, para_relations).
                if in_order
                then
                  and_then (if relation_output_format = ''triple''
                            then for_each (for_each (\<lambda>r. call_triples r ''to_triple''))
                                   para_relations
                            else Inr []) (\<lambda>unused.
                  if is_single_sent
                  then and_then (getitem (ordered_eventualities eventuality_output_format
                                            para_eventualities) 0) (\<lambda>sent_eventualities.
                       and_then (getitem para_relations 0) (\<lambda>sent_relations.
                       Inr (Flat sent_eventualities, Flat (map AsRelation sent_relations))))
                  else Inr (Buckets (ordered_eventualities eventuality_output_format
                                       para_eventualities),
                            Buckets (map (map AsRelation) para_relations)))
                else
                  and_then (merge_by_rid ''deepcopy'' (concat para_relations)) (\<lambda>rid2relation.
                  and_then (if relation_output_format = ''Relation''
                            then Inr (map AsRelation (sort_key rid (map snd rid2relation)))
                            else and_then (for_each (\<lambda>r. call_triples r ''to_triples'')
                                             (map snd rid2relation)) (\<lambda>triples.
                                   Inr (map AsTriple (sort (concat triples))))) (\<lambda>merged_relations.
                  Inr (Flat (merged_eventualities eventuality_output_format para_eventualities),
                       Flat merged_relations))))))))"

section \<open>aser_extractor.py: DiscourseASERExtractor3.extract_eventualities_from_parsed_result\<close>

text \<open>
  The collaborators of \<open>_extract_clauses\<close>: the syntax tree cache as the connective
  extractor leaves it, the constructor \<open>SyntaxTree\<close> and \<open>get_clauses\<close>.  The clauses of a
  sentence are collected in a Python \<open>set\<close> of tuples, which the caller iterates with
  \<open>for clause in sent_clauses\<close>.  A set yields its elements in the order of its hash table,
  which neither the order of insertion nor the order of the values decides; so that order is
  a parameter too: \<open>set_iteration xs\<close> is the sequence in which the set filled by
  \<open>update\<close> with the elements \<open>xs\<close> is iterated (the elements of \<open>xs\<close>, each once, in
  some order).
\<close>

record 't clause_tools =
  syntax_tree_cache :: "nat \<Rightarrow> 't option"
  SyntaxTree :: "string \<Rightarrow> error + 't"
  get_clauses :: "sentence \<Rightarrow> 't \<Rightarrow> int set \<Rightarrow> error + int list list"
  set_iteration :: "int list list \<Rightarrow> int list list"

definition extract_clauses ::
  "sentence discourse_parser \<Rightarrow> 't clause_tools \<Rightarrow> sentence list \<Rightarrow> error + int list list list" where
  "extract_clauses parser tools parsed_result =
     and_then (conn_extractor parser parsed_result) (\<lambda>connectives.
     and_then (for_loop connectives (replicate (length parsed_result) [])
                 (\<lambda>connective para_connectives.
                    and_then (getitem para_connectives (sent_idx connective)) (\<lambda>sent_connectives.
                    Inr (setitem para_connectives (sent_idx connective)
                           (sent_connectives @ [indices connective]))))) (\<lambda>para_connectives.
     for_each (\<lambda>(i, sent_parsed_result, sent_connectives).
                 and_then (case syntax_tree_cache tools i of
                             Some syntax_tree \<Rightarrow> Inr syntax_tree
                           | None \<Rightarrow>
                               (case parse sent_parsed_result of
                                  None \<Rightarrow> Inl KeyError
                                | Some p \<Rightarrow> SyntaxTree tools p)) (\<lambda>syntax_tree.
                 and_then (get_clauses tools sent_parsed_result syntax_tree
                             (set (concat sent_connectives))) (\<lambda>sent_arguments.
                 Inr (set_iteration tools sent_arguments))))
       (zip [0 ..< length parsed_result] (zip parsed_result para_connectives))))"

text \<open>
  The eventualities of one clause: the projection, the extractor, and
  \<open>raw_sent_mapping[k] = clause[v]\<close> for each of the eventualities.
\<close>

definition eventualities_of_clause ::
  "(sentence \<Rightarrow> error + eventuality list) \<Rightarrow> sentence \<Rightarrow> int list \<Rightarrow> error + eventuality list" where
  "eventualities_of_clause eventuality_extractor sent_parsed_result clause =
     and_then (project_clause sent_parsed_result clause) (\<lambda>clause_parsed_result.
     and_then (eventuality_extractor clause_parsed_result) (\<lambda>eventualities.
     for_each (remap_raw_sent_mapping clause) eventualities))"

definition extract_eventualities_from_parsed_result ::
  "sentence discourse_parser \<Rightarrow> 't clause_tools \<Rightarrow> (sentence \<Rightarrow> error + eventuality list)
     \<Rightarrow> sentence parsed \<Rightarrow> string \<Rightarrow> bool \<Rightarrow> error + eventuality_item extracted" where
  "extract_eventualities_from_parsed_result parser tools eventuality_extractor parsed_result
       output_format in_order =
     (if output_format \<notin> set [''Eventuality'', ''json''] then Inl NotImplementedError
      else
        (case (case parsed_result of
                 PyOther \<Rightarrow> Inl NotImplementedError
               | PyDict sent \<Rightarrow> Inr (True, [sent])
               | PyList sents \<Rightarrow> Inr (False, sents)
               | PyTuple sents \<Rightarrow> Inr (False, sents)) of
           Inl e \<Rightarrow> Inl e
         | Inr (is_single_sent, parsed_result) \<Rightarrow>
             and_then (extract_clauses parser tools parsed_result) (\<lambda>para_clauses.
             and_then (for_each (\<lambda>(sent_parsed_result, sent_clauses).
                          for_loop sent_clauses [] (\<lambda>clause sent_eventualities.
                            and_then (eventualities_of_clause eventuality_extractor
                                        sent_parsed_result clause) (\<lambda>eventualities.
                            Inr (sent_eventualities @ eventualities))))
                        (zip parsed_result para_clauses)) (\<lambda>para_eventualities.
             if in_order
             then
               (if is_single_sent
                then and_then (getitem (ordered_eventualities output_format para_eventualities) 0)
                       (\<lambda>sent_eventualities. Inr (Flat sent_eventualities))
                else Inr (Buckets (ordered_eventualities output_format para_eventualities)))
             else Inr (Flat (merged_eventualities output_format para_eventualities))))))"

text \<open>
  The baseline of a sentence as the claim describes it: one relation with the sense
  \<open>Co_Occurrence\<close> at weight \<open>1.0\<close> for every pair of positions \<open>a < b\<close> of its eventualities.
\<close>

definition co_occurrences :: "eventuality list \<Rightarrow> ('w::{plus,one}) relation list" where
  "co_occurrences evs =
     concat (map (\<lambda>a. map (\<lambda>b. \<lparr>heid = eid (evs ! a), teid = eid (evs ! b),
                                  rid = generate_rid (eid (evs ! a)) (eid (evs ! b)),
                                  relations = [(''Co_Occurrence'', 1)]\<rparr>)
                           [a + 1 ..< length evs])
               [0 ..< length evs])"

text \<open>What the additive union of two sense-weight mappings is at one label.\<close>

fun weight_sum :: "('w::plus) option \<Rightarrow> 'w option \<Rightarrow> 'w option" where
  "weight_sum None None = None"
| "weight_sum (Some a) None = Some a"
| "weight_sum None (Some b) = Some b"
| "weight_sum (Some a) (Some b) = Some (a + b)"

text \<open>Adding \<open>1.0\<close> once per occurrence: \<open>n\<close> additions, in the order the loop makes them.\<close>

definition add_ones :: "nat \<Rightarrow> ('w::{plus,one}) \<Rightarrow> 'w" where
  "add_ones n w = ((\<lambda>v. v + 1) ^^ n) w"

fun label_sum :: "('w::{plus,one}) option \<Rightarrow> nat \<Rightarrow> 'w option" where
  "label_sum None 0 = None"
| "label_sum None (Suc n) = Some (add_ones n 1)"
| "label_sum (Some w) n = Some (add_ones n w)"

text \<open>The bytes of one encoded character, as numbers.\<close>

definition utf8_nat :: "nat \<Rightarrow> nat list" where
  "utf8_nat n = (if n < 128 then [n] else [192 + n div 64, 128 + n mod 64])"

section \<open>Exceptions\<close>

lemma and_then_Inr [simp]: "and_then (Inr x) f = f x"
  by (simp add: and_then_def)

lemma and_then_Inl [simp]: "and_then (Inl e) f = Inl e"
  by (simp add: and_then_def)

section \<open>Merging sense weights\<close>

lemma map_of_dict_set: "map_of (dict_set d k v) = (map_of d)(k \<mapsto> v)"
  by (induction d k v rule: dict_set.induct) (auto simp: fun_eq_iff)

lemma keys_dict_set:
  "map fst (dict_set d k v) = (if k \<in> fst ` set d then map fst d else map fst d @ [k])"
  by (induction d k v rule: dict_set.induct) auto

lemma distinct_dict_set: "distinct (map fst d) \<Longrightarrow> distinct (map fst (dict_set d k v))"
  by (simp add: keys_dict_set)

lemma map_of_add_weight:
  "map_of (add_weight d r cnt) =
     (map_of d)(r \<mapsto> (case map_of d r of None \<Rightarrow> cnt | Some w \<Rightarrow> w + cnt))"
  by (simp add: add_weight_def map_of_dict_set split: option.splits)

lemma map_of_add_items:
  "distinct (map fst items) \<Longrightarrow>
   map_of (add_items d items) r = weight_sum (map_of d r) (map_of items r)"
proof (induction d items rule: add_items.induct)
  case (1 d)
  then show ?case by (cases "map_of d r") simp_all
next
  case (2 d k cnt items)
  have notin: "k \<notin> fst ` set items" using 2 by simp
  have step: "map_of (add_items (add_weight d k cnt) items) r
      = weight_sum (map_of (add_weight d k cnt) r) (map_of items r)"
    using 2 by simp
  show ?case
  proof (cases "r = k")
    case True
    have "map_of items r = None" using notin True by (simp add: map_of_eq_None_iff)
    then show ?thesis using step True
      by (cases "map_of d k") (simp_all add: map_of_add_weight)
  next
    case False
    then show ?thesis using step by (simp add: map_of_add_weight)
  qed
qed

lemma add_ones_Suc: "add_ones (Suc n) w = add_ones n (w + 1)"
  unfolding add_ones_def by (simp only: funpow_Suc_right o_apply)

lemma map_of_add_labels:
  "map_of (add_labels d rs) r = label_sum (map_of d r) (count_list rs r)"
proof (induction d rs rule: add_labels.induct)
  case (1 d)
  then show ?case by (cases "map_of d r") (simp_all add: add_ones_def)
next
  case (2 d k rs)
  show ?case
  proof (cases "r = k")
    case True
    then show ?thesis using 2
      by (cases "map_of d k") (simp_all add: map_of_add_weight add_ones_Suc)
  next
    case False
    then show ?thesis using 2 by (simp add: map_of_add_weight)
  qed
qed

lemma update_relations_identity:
  "heid (update_relations self x) = heid self \<and> teid (update_relations self x) = teid self
   \<and> rid (update_relations self x) = rid self"
  by (cases x) simp_all

text \<open>
  Claim C2.  When \<open>x\<close> is a Relation with the head and tail of \<open>self\<close>, the weight of every
  sense label after \<open>self.update_relations(x)\<close> is the sum of the two weights before; a label
  that only one side has keeps that side's weight, so nothing is overwritten or dropped.
  Merging a list of labels adds \<open>1.0\<close> once for each occurrence of a label.  (The items of
  the dict \<open>x.relations\<close> have distinct keys.)
\<close>

theorem update_relations_additive:
  assumes "heid x = heid self" and "teid x = teid self"
    and "distinct (map fst (relations x))"
  shows "map_of (relations (update_relations self (ArgRelation x))) r
           = weight_sum (map_of (relations self) r) (map_of (relations x) r)
         \<and> map_of (relations (update_relations self (ArgList labels))) r
           = label_sum (map_of (relations self) r) (count_list labels r)"
  using assms by (simp add: map_of_add_items map_of_add_labels)

theorem update_relations_additive_witness:
  "map_of (relations (update_relations
      \<lparr>heid = ''a'', teid = ''b'', rid = generate_rid ''a'' ''b'',
        relations = [(''Co_Occurrence'', 1::real), (''Reason'', 2)]\<rparr>
      (ArgRelation \<lparr>heid = ''a'', teid = ''b'', rid = generate_rid ''a'' ''b'',
        relations = [(''Reason'', 3), (''Result'', 1)]\<rparr>))) ''Reason'' = Some 5
   \<and> map_of (relations (update_relations
      \<lparr>heid = ''a'', teid = ''b'', rid = generate_rid ''a'' ''b'',
        relations = [(''Co_Occurrence'', 1::real), (''Reason'', 2)]\<rparr>
      (ArgList [''Reason'', ''Result'', ''Reason'']))) ''Reason'' = Some 4"
  using update_relations_additive
    [of "\<lparr>heid = ''a'', teid = ''b'', rid = generate_rid ''a'' ''b'',
          relations = [(''Reason'', 3::real), (''Result'', 1)]\<rparr>"
        "\<lparr>heid = ''a'', teid = ''b'', rid = generate_rid ''a'' ''b'',
          relations = [(''Co_Occurrence'', 1::real), (''Reason'', 2)]\<rparr>"
        "''Reason''" "[''Reason'', ''Result'', ''Reason'']"]
  by (simp add: add_ones_def)

text \<open>
  Claim C10.  \<open>self.update_relations(x)\<close> with a Relation \<open>x\<close> whose head or tail differs from
  that of \<open>self\<close> changes nothing: \<open>self\<close> is returned as it was, and no exception is raised
  (the function has no error result).
\<close>

theorem update_relations_mismatch_noop:
  assumes "heid self \<noteq> heid x \<or> teid self \<noteq> teid x"
  shows "update_relations self (ArgRelation x) = self"
  using assms by auto

theorem update_relations_mismatch_noop_witness:
  "update_relations
      \<lparr>heid = ''a'', teid = ''b'', rid = generate_rid ''a'' ''b'',
        relations = [(''Reason'', 2::real)]\<rparr>
      (ArgRelation \<lparr>heid = ''b'', teid = ''a'', rid = generate_rid ''b'' ''a'',
        relations = [(''Reason'', 3), (''Result'', 1)]\<rparr>)
    = \<lparr>heid = ''a'', teid = ''b'', rid = generate_rid ''a'' ''b'',
        relations = [(''Reason'', 2::real)]\<rparr>"
  using update_relations_mismatch_noop
    [of "\<lparr>heid = ''a'', teid = ''b'', rid = generate_rid ''a'' ''b'',
          relations = [(''Reason'', 2::real)]\<rparr>"
        "\<lparr>heid = ''b'', teid = ''a'', rid = generate_rid ''b'' ''a'',
          relations = [(''Reason'', 3::real), (''Result'', 1)]\<rparr>"]
  by simp

section \<open>The identity of a relation\<close>

lemma key_direction:
  assumes "A \<noteq> B"
    and "length A = length B \<or> (CHR ''$'' \<notin> set A \<and> CHR ''$'' \<notin> set B)"
  shows "A @ ''$'' @ B \<noteq> B @ ''$'' @ A"
proof
  assume eq: "A @ ''$'' @ B = B @ ''$'' @ A"
  from assms(2) show False
  proof
    assume "length A = length B"
    with eq assms(1) show False by simp
  next
    assume nd: "CHR ''$'' \<notin> set A \<and> CHR ''$'' \<notin> set B"
    have "takeWhile (\<lambda>c. c \<noteq> CHR ''$'') (A @ ''$'' @ B) = A"
      using nd by (subst takeWhile_append2) auto
    moreover have "takeWhile (\<lambda>c. c \<noteq> CHR ''$'') (B @ ''$'' @ A) = B"
      using nd by (subst takeWhile_append2) auto
    ultimately show False using eq assms(1) by simp
  qed
qed

lemma unat_byte: "n < 256 \<Longrightarrow> unat (of_nat n :: 8 word) = n"
  unfolding unat_of_nat by simp

lemma utf8_char_unat: "map unat (utf8_char c) = utf8_nat (of_char c)"
proof -
  define n where "n = (of_char c :: nat)"
  have lt: "n < 256" by (simp add: n_def)
  have a: "192 + n div 64 < 256" using lt by arith
  have b: "128 + n mod 64 < 256" by arith
  have "map unat (utf8_char c) = utf8_nat n"
    unfolding utf8_char_def utf8_nat_def Let_def n_def[symmetric]
    using unat_byte[OF lt] unat_byte[OF a] unat_byte[OF b]
    by (simp del: of_nat_add of_nat_numeral)
  then show ?thesis by (simp add: n_def)
qed

lemma utf8_nat_inj: "utf8_nat m = utf8_nat n \<Longrightarrow> m = n"
  by (auto simp: utf8_nat_def split: if_splits) (metis div_mult_mod_eq)

lemma utf8_char_inj:
  assumes "utf8_char c = utf8_char d"
  shows "c = d"
proof -
  have "map unat (utf8_char c) = map unat (utf8_char d)" using assms by simp
  then have "(of_char c :: nat) = of_char d"
    unfolding utf8_char_unat by (rule utf8_nat_inj)
  then show ?thesis by simp
qed

lemma utf8_nat_length: "length (utf8_nat n) = (if hd (utf8_nat n) < 128 then 1 else 2)"
  by (simp add: utf8_nat_def)

lemma utf8_char_length:
  "length (utf8_char c) = (if hd (map unat (utf8_char c)) < 128 then 1 else 2)"
  using utf8_nat_length[of "of_char c"] unfolding utf8_char_unat[symmetric] by simp

lemma utf8_char_nonempty: "utf8_char c \<noteq> []"
  by (simp add: utf8_char_def Let_def)

lemma encode_utf8_inj: "encode_utf8 s = encode_utf8 t \<Longrightarrow> s = t"
proof (induction s arbitrary: t)
  case Nil
  then show ?case
    by (cases t) (simp_all add: encode_utf8_def utf8_char_nonempty)
next
  case (Cons c s)
  show ?case
  proof (cases t)
    case Nil
    then show ?thesis using Cons.prems by (simp add: encode_utf8_def utf8_char_nonempty)
  next
    case (Cons d t')
    have eq: "utf8_char c @ encode_utf8 s = utf8_char d @ encode_utf8 t'"
      using Cons.prems Cons by (simp add: encode_utf8_def)
    have "hd (utf8_char c) = hd (utf8_char d)"
      using eq utf8_char_nonempty by (metis hd_append2)
    then have "hd (map unat (utf8_char c)) = hd (map unat (utf8_char d))"
      using utf8_char_nonempty by (simp add: hd_map)
    then have "length (utf8_char c) = length (utf8_char d)"
      by (simp add: utf8_char_length)
    with eq have "utf8_char c = utf8_char d" and "encode_utf8 s = encode_utf8 t'"
      by simp_all
    then show ?thesis using Cons.IH Cons by (simp add: utf8_char_inj)
  qed
qed

lemma rid_Relation: "rid (Relation (Some a) (Some b) x) = generate_rid a b"
  by (cases a; cases b) (simp_all add: Relation_def Let_def update_relations_identity)

lemma head_tail_Relation:
  "heid (Relation (Some a) (Some b) x) = a \<and> teid (Relation (Some a) (Some b) x) = b"
  by (cases a; cases b) (simp_all add: Relation_def Let_def update_relations_identity)

text \<open>
  The rid of a relation is the SHA-1 digest of the bytes of \<open>heid + "$" + teid\<close>, and the
  relation keeps the head and the tail it was built with.  For two distinct identities of
  the same length (as two digests are), or without a \<open>$\<close> in them, the byte strings hashed
  for \<open>(A, B)\<close> and for \<open>(B, A)\<close> differ.  Whether the two digests differ as well is a
  question about SHA-1 itself, which is left open here.
\<close>

lemma rid_key:
  "rid (Relation (Some A) (Some B) x) = hexdigest (sha1 (encode_utf8 (A @ ''$'' @ B)))"
  by (simp add: rid_Relation generate_rid_def)

lemma hashed_bytes_direction:
  assumes "A \<noteq> B"
    and "length A = length B \<or> (CHR ''$'' \<notin> set A \<and> CHR ''$'' \<notin> set B)"
  shows "encode_utf8 (A @ ''$'' @ B) \<noteq> encode_utf8 (B @ ''$'' @ A)"
  using key_direction[OF assms] encode_utf8_inj by blast

section \<open>Span projection\<close>

lemma for_each_map:
  "(\<And>x. x \<in> set xs \<Longrightarrow> f x = Inr (g x)) \<Longrightarrow> for_each f xs = Inr (map g xs)"
  by (induction xs) simp_all

lemma getitem_nat: "0 \<le> i \<Longrightarrow> i < int (length xs) \<Longrightarrow> getitem xs i = Inr (xs ! nat i)"
  by (simp add: getitem_def)

lemma bisect_loop_spec:
  assumes "sorted a" and "lo \<le> hi" and "hi \<le> length a"
    and "\<forall>i<lo. a ! i < x" and "\<forall>i. hi \<le> i \<and> i < length a \<longrightarrow> x \<le> a ! i"
  shows "bisect_loop a x lo hi \<le> length a
       \<and> (\<forall>i<bisect_loop a x lo hi. a ! i < x)
       \<and> (\<forall>i. bisect_loop a x lo hi \<le> i \<and> i < length a \<longrightarrow> x \<le> a ! i)"
  using assms
proof (induction a x lo hi rule: bisect_loop.induct)
  case (1 a x lo hi)
  show ?case
  proof (cases "lo < hi")
    case False
    then have "lo = hi" using "1.prems" by simp
    moreover have "bisect_loop a x lo hi = lo"
      using False by (subst bisect_loop.simps) simp
    ultimately show ?thesis using "1.prems" by simp
  next
    case True
    define mid where "mid = (lo + hi) div 2"
    have mid: "lo \<le> mid" "mid < hi" using True by (simp_all add: mid_def)
    show ?thesis
    proof (cases "a ! mid < x")
      case lt: True
      have below: "\<forall>i<mid + 1. a ! i < x"
      proof (intro allI impI)
        fix i assume "i < mid + 1"
        then have "i \<le> mid" by simp
        moreover have "mid < length a" using mid "1.prems"(3) by simp
        ultimately have "a ! i \<le> a ! mid"
          using "1.prems"(1) by (rule sorted_nth_mono[rotated])
        then show "a ! i < x" using lt by simp
      qed
      have "bisect_loop a x lo hi = bisect_loop a x (mid + 1) hi"
        using True lt by (subst bisect_loop.simps) (simp add: mid_def Let_def)
      moreover have "bisect_loop a x (mid + 1) hi \<le> length a
       \<and> (\<forall>i<bisect_loop a x (mid + 1) hi. a ! i < x)
       \<and> (\<forall>i. bisect_loop a x (mid + 1) hi \<le> i \<and> i < length a \<longrightarrow> x \<le> a ! i)"
        using "1.IH"(1)[OF True mid_def lt "1.prems"(1) _ "1.prems"(3) below "1.prems"(5)] mid
        by simp
      ultimately show ?thesis by simp
    next
      case ge: False
      have above: "\<forall>i. mid \<le> i \<and> i < length a \<longrightarrow> x \<le> a ! i"
      proof (intro allI impI)
        fix i assume "mid \<le> i \<and> i < length a"
        then have "a ! mid \<le> a ! i"
          using sorted_nth_mono[OF "1.prems"(1), of mid i] by simp
        then show "x \<le> a ! i" using ge by simp
      qed
      have "bisect_loop a x lo hi = bisect_loop a x lo mid"
        using True ge by (subst bisect_loop.simps) (simp add: mid_def Let_def)
      moreover have "bisect_loop a x lo mid \<le> length a
       \<and> (\<forall>i<bisect_loop a x lo mid. a ! i < x)
       \<and> (\<forall>i. bisect_loop a x lo mid \<le> i \<and> i < length a \<longrightarrow> x \<le> a ! i)"
        using "1.IH"(2)[OF True mid_def ge "1.prems"(1) _ _ "1.prems"(4) above] mid "1.prems"(3)
        by simp
      ultimately show ?thesis by simp
    qed
  qed
qed

lemma bisect_left_spec:
  assumes "sorted a"
  shows "bisect_left a x \<le> length a
       \<and> (\<forall>i<bisect_left a x. a ! i < x)
       \<and> (\<forall>i. bisect_left a x \<le> i \<and> i < length a \<longrightarrow> x \<le> a ! i)"
  unfolding bisect_left_def using bisect_loop_spec[OF assms, of 0 "length a" x] by simp

lemma position_in_nth: "x \<in> set S \<Longrightarrow> position_in S x < length S \<and> S ! position_in S x = x"
  by (induction S) (auto simp: position_in_def)

lemma position_in_first:
  assumes "i < position_in S x"
  shows "S ! i \<noteq> x"
proof -
  let ?t = "takeWhile (\<lambda>y. y \<noteq> x) S"
  have i: "i < length ?t" using assms by (simp add: position_in_def)
  then have "?t ! i \<in> set ?t" by (rule nth_mem)
  then have "?t ! i \<noteq> x" by (rule set_takeWhileD[THEN conjunct2])
  moreover have "?t ! i = S ! i" using i by (rule takeWhile_nth)
  ultimately show ?thesis by simp
qed

lemma bisect_left_found:
  assumes "sorted S" and "x \<in> set S"
  shows "bisect_left S x = position_in S x"
proof -
  let ?r = "bisect_left S x" and ?p = "position_in S x"
  have spec: "\<forall>i<?r. S ! i < x" "\<forall>i. ?r \<le> i \<and> i < length S \<longrightarrow> x \<le> S ! i"
    using bisect_left_spec[OF assms(1), of x] by simp_all
  have p: "?p < length S" "S ! ?p = x" using position_in_nth[OF assms(2)] by simp_all
  have "?r \<le> ?p"
  proof (rule ccontr)
    assume "\<not> ?r \<le> ?p"
    then have "S ! ?p < x" using spec(1) by simp
    then show False using p by simp
  qed
  moreover have "\<not> ?r < ?p"
  proof
    assume lt: "?r < ?p"
    then have "x \<le> S ! ?r" using spec(2) p by simp
    moreover have "S ! ?r \<le> S ! ?p"
      using sorted_nth_mono[OF assms(1) less_imp_le[OF lt] p(1)] .
    ultimately have "S ! ?r = x" using p by simp
    then show False using position_in_first[OF lt] by simp
  qed
  ultimately show ?thesis by simp
qed

lemma bisect_left_hit:
  assumes "sorted S"
  shows "(bisect_left S x < length S \<and> S ! bisect_left S x = x) \<longleftrightarrow> x \<in> set S"
proof
  assume "bisect_left S x < length S \<and> S ! bisect_left S x = x"
  then show "x \<in> set S" using nth_mem by metis
next
  assume "x \<in> set S"
  then show "bisect_left S x < length S \<and> S ! bisect_left S x = x"
    using bisect_left_found[OF assms] position_in_nth by simp
qed

lemma project_mentions_filter:
  assumes "sorted S"
  shows "project_mentions S ms =
     map (\<lambda>m. m\<lparr>mention_start := int (position_in S (mention_start m)),
                mention_end := int (position_in S (mention_end m - 1)) + 1\<rparr>)
       (filter (\<lambda>m. mention_start m \<in> set S \<and> mention_end m - 1 \<in> set S) ms)"
proof (induction ms)
  case Nil
  then show ?case by simp
next
  case (Cons m ms)
  show ?case
    using Cons.IH
    by (simp add: Let_def bisect_left_hit[OF assms] bisect_left_found[OF assms] position_in_nth)
qed

lemma map_of_idx_fold:
  assumes "distinct xs"
  shows "map_of (fold (\<lambda>(i, j) m. dict_set m j i) (enumerate n xs) m0) j
       = (if j \<in> set xs then Some (n + position_in xs j) else map_of m0 j)"
  using assms
proof (induction xs arbitrary: n m0)
  case Nil
  then show ?case by simp
next
  case (Cons x xs)
  then show ?case
    by (auto simp: map_of_dict_set position_in_def)
qed

lemma map_of_idx_mapping:
  "distinct S \<Longrightarrow> j \<in> set S \<Longrightarrow> map_of (idx_mapping S) j = Some (position_in S j)"
  by (simp add: idx_mapping_def map_of_idx_fold)

lemma project_dependencies_filter:
  assumes "distinct S"
  shows "project_dependencies S deps =
     Inr (map (\<lambda>(g, l, d). (int (position_in S g), l, int (position_in S d)))
           (filter (\<lambda>(g, l, d). g \<in> set S \<and> d \<in> set S) deps))"
proof -
  have f: "filter (\<lambda>dep. fst dep \<in> set S \<and> snd (snd dep) \<in> set S) deps
      = filter (\<lambda>(g, l, d). g \<in> set S \<and> d \<in> set S) deps"
    by (rule filter_cong) auto
  show ?thesis
    unfolding project_dependencies_def f
    by (rule for_each_map) (auto simp: subscript_def map_of_idx_mapping[OF assms])
qed

lemma gather_span:
  assumes "\<forall>i \<in> set S. 0 \<le> i \<and> i < int (length xs)"
  shows "for_each (getitem xs) S = Inr (map (\<lambda>i. xs ! nat i) S)"
  by (rule for_each_map) (use assms in \<open>simp add: getitem_nat\<close>)

text \<open>
  Claim C9.  For a span \<open>S\<close> of ascending, distinct token indices of the sentence, the
  projection gathers tokens, POS tags, lemmas and (when present) NER labels in the order of
  \<open>S\<close>; keeps exactly the dependency triples whose two ends are in \<open>S\<close>, both ends replaced by
  their positions in \<open>S\<close>; and keeps exactly the mentions whose start and whose \<open>end - 1\<close> are
  in \<open>S\<close>, with start and end rewritten to the positions in \<open>S\<close> (the end exclusive).
\<close>

theorem project_argument_correct:
  assumes "valid_span sent S"
  shows "project_argument sent S =
     Inr \<lparr>tokens = map (\<lambda>i. tokens sent ! nat i) S,
          pos_tags = map (\<lambda>i. pos_tags sent ! nat i) S,
          sent_lemmas = map (\<lambda>i. sent_lemmas sent ! nat i) S,
          dependencies =
            map (\<lambda>(g, l, d). (int (position_in S g), l, int (position_in S d)))
              (filter (\<lambda>(g, l, d). g \<in> set S \<and> d \<in> set S) (dependencies sent)),
          sent_text = [], parse = None,
          ners = map_option (\<lambda>ns. map (\<lambda>i. ns ! nat i) S) (ners sent),
          mentions =
            map_option (\<lambda>ms.
              map (\<lambda>m. m\<lparr>mention_start := int (position_in S (mention_start m)),
                         mention_end := int (position_in S (mention_end m - 1)) + 1\<rparr>)
                (filter (\<lambda>m. mention_start m \<in> set S \<and> mention_end m - 1 \<in> set S) ms))
              (mentions sent)\<rparr>
     \<and> (\<forall>x \<in> set S. position_in S x < length S \<and> S ! position_in S x = x)"
proof -
  have s: "sorted S" and d: "distinct S"
    and r: "\<forall>i \<in> set S. 0 \<le> i \<and> i < int (length (tokens sent))"
    and l1: "length (pos_tags sent) = length (tokens sent)"
    and l2: "length (sent_lemmas sent) = length (tokens sent)"
    using assms by (simp_all add: valid_span_def)
  have n: "case ners sent of None \<Rightarrow> True | Some ns \<Rightarrow> length ns = length (tokens sent)"
    using assms by (simp add: valid_span_def)
  have ners_eq: "(case ners sent of
                 None \<Rightarrow> Inr None
               | Some ns \<Rightarrow> and_then (for_each (getitem ns) S) (\<lambda>ns'. Inr (Some ns')))
      = Inr (map_option (\<lambda>ns. map (\<lambda>i. ns ! nat i) S) (ners sent))"
    using n r by (cases "ners sent") (simp_all add: gather_span)
  have ments: "map_option (project_mentions S) (mentions sent)
     = map_option (\<lambda>ms.
              map (\<lambda>m. m\<lparr>mention_start := int (position_in S (mention_start m)),
                         mention_end := int (position_in S (mention_end m - 1)) + 1\<rparr>)
                (filter (\<lambda>m. mention_start m \<in> set S \<and> mention_end m - 1 \<in> set S) ms))
              (mentions sent)"
    by (cases "mentions sent") (simp_all add: project_mentions_filter[OF s])
  have "project_argument sent S = Inr \<lparr>tokens = map (\<lambda>i. tokens sent ! nat i) S,
          pos_tags = map (\<lambda>i. pos_tags sent ! nat i) S,
          sent_lemmas = map (\<lambda>i. sent_lemmas sent ! nat i) S,
          dependencies =
            map (\<lambda>(g, l, d). (int (position_in S g), l, int (position_in S d)))
              (filter (\<lambda>(g, l, d). g \<in> set S \<and> d \<in> set S) (dependencies sent)),
          sent_text = [], parse = None,
          ners = map_option (\<lambda>ns. map (\<lambda>i. ns ! nat i) S) (ners sent),
          mentions = map_option (project_mentions S) (mentions sent)\<rparr>"
    unfolding project_argument_def ners_eq
    using r l1 l2 by (simp add: project_dependencies_filter[OF d] gather_span)
  then show ?thesis using ments position_in_nth by simp
qed

theorem project_argument_correct_witness:
  "valid_span
     \<lparr>tokens = [''the'', ''cat'', ''quietly'', ''sleeps''],
      pos_tags = [''DT'', ''NN'', ''RB'', ''VBZ''],
      sent_lemmas = [''the'', ''cat'', ''quietly'', ''sleep''],
      dependencies = [(3, ''nsubj'', 1), (1, ''det'', 0), (3, ''advmod'', 2)],
      sent_text = ''the cat quietly sleeps'', parse = None,
      ners = Some [''O'', ''ANIMAL'', ''O'', ''O''],
      mentions = Some [\<lparr>mention_start = 1, mention_end = 2, mention_type = ''ANIMAL''\<rparr>,
                       \<lparr>mention_start = 0, mention_end = 2, mention_type = ''NP''\<rparr>,
                       \<lparr>mention_start = 1, mention_end = 4, mention_type = ''S''\<rparr>]\<rparr>
     [1, 3]
   \<and> project_argument
     \<lparr>tokens = [''the'', ''cat'', ''quietly'', ''sleeps''],
      pos_tags = [''DT'', ''NN'', ''RB'', ''VBZ''],
      sent_lemmas = [''the'', ''cat'', ''quietly'', ''sleep''],
      dependencies = [(3, ''nsubj'', 1), (1, ''det'', 0), (3, ''advmod'', 2)],
      sent_text = ''the cat quietly sleeps'', parse = None,
      ners = Some [''O'', ''ANIMAL'', ''O'', ''O''],
      mentions = Some [\<lparr>mention_start = 1, mention_end = 2, mention_type = ''ANIMAL''\<rparr>,
                       \<lparr>mention_start = 0, mention_end = 2, mention_type = ''NP''\<rparr>,
                       \<lparr>mention_start = 1, mention_end = 4, mention_type = ''S''\<rparr>]\<rparr>
     [1, 3]
   = Inr \<lparr>tokens = [''cat'', ''sleeps''], pos_tags = [''NN'', ''VBZ''],
      sent_lemmas = [''cat'', ''sleep''], dependencies = [(1, ''nsubj'', 0)],
      sent_text = [], parse = None, ners = Some [''ANIMAL'', ''O''],
      mentions = Some [\<lparr>mention_start = 0, mention_end = 1, mention_type = ''ANIMAL''\<rparr>,
                       \<lparr>mention_start = 0, mention_end = 2, mention_type = ''S''\<rparr>]\<rparr>"
  using project_argument_correct
    [of "\<lparr>tokens = [''the'', ''cat'', ''quietly'', ''sleeps''],
      pos_tags = [''DT'', ''NN'', ''RB'', ''VBZ''],
      sent_lemmas = [''the'', ''cat'', ''quietly'', ''sleep''],
      dependencies = [(3, ''nsubj'', 1), (1, ''det'', 0), (3, ''advmod'', 2)],
      sent_text = ''the cat quietly sleeps'', parse = None,
      ners = Some [''O'', ''ANIMAL'', ''O'', ''O''],
      mentions = Some [\<lparr>mention_start = 1, mention_end = 2, mention_type = ''ANIMAL''\<rparr>,
                       \<lparr>mention_start = 0, mention_end = 2, mention_type = ''NP''\<rparr>,
                       \<lparr>mention_start = 1, mention_end = 4, mention_type = ''S''\<rparr>]\<rparr>"
        "[1, 3]"]
  by (simp add: valid_span_def position_in_def)

section \<open>Looking a relation up in a bucket\<close>

lemma lookup_or_create_empty:
  "lookup_or_create [] h t senses = Inr [Relation (Some h) (Some t) (ArgList senses)]"
  by (simp add: lookup_or_create_def)

text \<open>
  Claim C3.  The step that looks a relation up by head and tail, or creates it, reads
  \<open>relation.hid\<close> of the first relation of the bucket.  A Relation has the attributes
  \<open>heid\<close> and \<open>teid\<close> and none named \<open>hid\<close>: in every bucket that is not empty the step
  raises AttributeError, whatever the head, the tail and the senses are.
\<close>

theorem lookup_or_create_nonempty_raises:
  "lookup_or_create (relation # rest) h t senses = Inl (AttributeError ''hid'')"
  by (simp add: lookup_or_create_def getattr_def)

text \<open>
  So the extraction of a sentence with two eventualities and a connective whose arguments
  match them raises: the bucket of the sentence holds their baseline relation when the sense
  of the connective is looked up.
\<close>

lemma lookup_raises_in_extraction:
  "extract_relations_from_parsed_result
     \<lparr>conn_extractor = (\<lambda>sentences. Inr
        [\<lparr>sent_idx = 0, indices = [2],
          arg1 = Some \<lparr>sent_idx = 0, indices = [0, 1]\<rparr>,
          arg2 = Some \<lparr>sent_idx = 0, indices = [3, 4]\<rparr>,
          sense = Some ''Reason''\<rparr>]),
      argpos_classifier = (\<lambda>sentences connectives. Inr (connectives, [])),
      ss_extractor = (\<lambda>sentences connectives. Inr connectives),
      ps_extractor = (\<lambda>sentences connectives. Inr connectives),
      explicit_classifier = (\<lambda>sentences connectives. Inr connectives)\<rparr>
     match_argument_eventuality_by_Simpson ''.''
     (Sized IsList [''he stays because it rains''])
     [[\<lparr>eid = ''e1'', pattern = ''s-v'', signature = [(''he'', ''PRP''), (''stay'', ''VBZ'')],
        raw_sent_mapping = [(0, 0), (1, 1)], frequency = 1\<rparr>,
       \<lparr>eid = ''e2'', pattern = ''s-v'', signature = [(''it'', ''PRP''), (''rain'', ''VBZ'')],
        raw_sent_mapping = [(0, 3), (1, 4)], frequency = 1\<rparr>]]
     ''Relation'' True
   = (Inl (AttributeError ''hid'') :: error + real relation_item extracted)"
  apply (simp add: extract_relations_from_parsed_result_def baseline_def baseline_step_def
      co_occurrence_relations_def run_discourse_parser_def connective_key_def)
  apply (simp add: relations_of_connective_def getitem_def setitem_def
      same_sentence_relations_def match_argument_eventuality_by_Simpson_def
      lookup_or_create_def getattr_def Let_def)
  done

section \<open>The co-occurrence baseline\<close>

lemma Relation_one_label:
  "Relation (Some h) (Some t) (ArgList [s]) =
     \<lparr>heid = h, teid = t, rid = generate_rid h t, relations = [(s, 1)]\<rparr>"
  by (cases h; cases t) (simp_all add: Relation_def Let_def add_weight_def)

lemma fold_append_map: "fold (\<lambda>b r. r @ [f b]) xs r = r @ map f xs"
  by (induction xs arbitrary: r) simp_all

lemma fold_append_concat: "fold (\<lambda>a r. r @ g a) xs r = r @ concat (map g xs)"
  by (induction xs arbitrary: r) simp_all

lemma concat_last_empty:
  "concat (map (\<lambda>a. map (f a) [a + 1 ..< k]) [0 ..< k - 1])
   = concat (map (\<lambda>a. map (f a) [a + 1 ..< k]) [0 ..< k])"
  by (cases k) simp_all

lemma co_occurrence_relations_eq:
  "co_occurrence_relations evs rels = rels @ co_occurrences evs"
  unfolding co_occurrence_relations_def co_occurrences_def Relation_one_label
    fold_append_map fold_append_concat concat_last_empty ..

lemma length_pairs:
  "length (concat (map (\<lambda>a. map (f a) [a + 1 ..< k]) [0 ..< k])) = k * (k - 1) div 2"
proof -
  have "length (concat (map (\<lambda>a. map (f a) [a + 1 ..< k]) [0 ..< k]))
        = (\<Sum>a\<leftarrow>[0 ..< k]. k - (a + 1))"
    by (simp add: length_concat comp_def)
  also have "\<dots> = (\<Sum>a < k. k - (a + 1))"
    by (simp add: sum_list_sum_nth atLeast0LessThan)
  also have "\<dots> = (\<Sum>a < k. a)"
    using sum.nat_diff_reindex[of "\<lambda>i. i" k] by simp
  also have "\<dots> = k * (k - 1) div 2"
    using gauss_sum_nat[of "k - 1"] by (cases k) (simp_all add: lessThan_Suc_atMost atMost_atLeast0)
  finally show ?thesis .
qed

lemma length_co_occurrences:
  "length (co_occurrences evs :: ('w::{plus,one}) relation list) = length evs * (length evs - 1) div 2"
  unfolding co_occurrences_def by (rule length_pairs)

lemma baseline_step_length:
  "length (fst (snd (baseline_step E x (f, pr, l)))) = length pr"
  by (cases x) (simp add: baseline_step_def)

lemma baseline_fold_keep:
  assumes "i \<notin> fst ` set ts"
  shows "fst (snd (fold (baseline_step E) ts (f, pr, l))) ! i = pr ! i"
  using assms
proof (induction ts arbitrary: f pr l)
  case Nil
  then show ?case by simp
next
  case (Cons y ts)
  obtain k s evs where y: "y = (k, s, evs)" by (cases y) auto
  obtain f' pr' l' where st: "baseline_step E y (f, pr, l) = (f', pr', l')"
    by (cases "baseline_step E y (f, pr, l)") auto
  have "k \<noteq> i" using Cons.prems y by auto
  then have "pr' ! i = pr ! i" using st y by (auto simp: baseline_step_def split: if_splits)
  moreover have "fst (snd (fold (baseline_step E) ts (f', pr', l'))) ! i = pr' ! i"
    using Cons.IH Cons.prems by simp
  ultimately show ?case using st by simp
qed

lemma baseline_fold:
  assumes "distinct (map fst ts)" and "(i, s, evs) \<in> set ts" and "i < length pr"
  shows "fst (snd (fold (baseline_step E) ts (f, pr, l))) ! i
       = (if length evs > 0 then co_occurrence_relations evs (pr ! i) else pr ! i)"
  using assms
proof (induction ts arbitrary: f pr l)
  case Nil
  then show ?case by simp
next
  case (Cons x ts)
  obtain j s' evs' where x: "x = (j, s', evs')" by (cases x) auto
  obtain f' pr' l' where st: "baseline_step E x (f, pr, l) = (f', pr', l')"
    by (cases "baseline_step E x (f, pr, l)") auto
  have len: "length pr' = length pr"
    using baseline_step_length[of E x f pr l] st by simp
  show ?case
  proof (cases "(i, s, evs) \<in> set ts")
    case True
    then have "i \<noteq> j" using Cons.prems(1) x by (auto simp: image_iff) 
    then have same: "pr' ! i = pr ! i"
      using st x by (auto simp: baseline_step_def split: if_splits)
    have "fst (snd (fold (baseline_step E) ts (f', pr', l'))) ! i
       = (if length evs > 0 then co_occurrence_relations evs (pr' ! i) else pr' ! i)"
      using Cons.IH True Cons.prems len by simp
    then show ?thesis using same st by simp
  next
    case False
    then have eq: "x = (i, s, evs)" using Cons.prems(2) by simp
    then have notin: "i \<notin> fst ` set ts" using Cons.prems(1) by simp
    have "pr' ! i = (if length evs > 0 then co_occurrence_relations evs (pr ! i) else pr ! i)"
      using st eq Cons.prems(3) by (auto simp: baseline_step_def split: if_splits)
    then show ?thesis using baseline_fold_keep[OF notin, of E f' pr' l'] st by simp
  qed
qed

text \<open>
  Claim C5, as amended.  In \<open>extract_relations_from_parsed_result\<close> the first loop, which
  runs before the discourse parser and does not depend on any connective, leaves in the
  bucket of every sentence with \<open>k\<close> eventualities exactly the \<open>k * (k - 1) / 2\<close> relations
  of its pairs \<open>e1\<close> before \<open>e2\<close>, each from the \<open>eid\<close> of \<open>e1\<close> to the \<open>eid\<close> of \<open>e2\<close> with
  the sense \<open>Co_Occurrence\<close> at weight \<open>1.0\<close>.
\<close>

theorem co_occurrence_baseline:
  assumes "i < length sentences" and "i < length para_eventualities"
  shows "(case baseline EMPTY_SENT_PARSED_RESULT sentences para_eventualities (length sentences) of
            (filtered_parsed_result, para_relations, leaked) \<Rightarrow>
              para_relations ! i = (co_occurrences (para_eventualities ! i) :: ('w::{plus,one}) relation list)
              \<and> length (para_relations ! i)
                  = length (para_eventualities ! i) * (length (para_eventualities ! i) - 1) div 2)"
proof -
  let ?ts = "zip [0 ..< length sentences] (zip sentences para_eventualities)"
  let ?pr = "replicate (2 * length sentences - 1) ([] :: 'w relation list)"
  obtain f pr l where st:
    "fold (baseline_step EMPTY_SENT_PARSED_RESULT) ?ts ([], ?pr, None) = (f, pr, l)"
    by (cases "fold (baseline_step EMPTY_SENT_PARSED_RESULT) ?ts ([], ?pr, None)") auto
  have d: "distinct (map fst ?ts)" by (simp add: map_fst_zip_take)
  have m: "(i, sentences ! i, para_eventualities ! i) \<in> set ?ts"
    using assms by (auto simp: set_zip intro!: exI[of _ i])
  have l: "i < length ?pr" using assms by simp
  have "pr ! i = (co_occurrences (para_eventualities ! i) :: 'w relation list)"
    using baseline_fold[OF d m l, of EMPTY_SENT_PARSED_RESULT "[]" None] l st
    by (simp add: co_occurrence_relations_eq co_occurrences_def)
  then show ?thesis
    using st by (simp add: baseline_def length_co_occurrences)
qed

theorem co_occurrence_baseline_witness:
  "(case baseline ''.'' [''it rains, he stays and we wait'']
      [[\<lparr>eid = ''e1'', pattern = ''s-v'', signature = [(''it'', ''PRP''), (''rain'', ''VBZ'')],
         raw_sent_mapping = [(0, 0), (1, 1)], frequency = 1\<rparr>,
        \<lparr>eid = ''e2'', pattern = ''s-v'', signature = [(''he'', ''PRP''), (''stay'', ''VBZ'')],
         raw_sent_mapping = [(0, 3), (1, 4)], frequency = 1\<rparr>,
        \<lparr>eid = ''e3'', pattern = ''s-v'', signature = [(''we'', ''PRP''), (''wait'', ''VBP'')],
         raw_sent_mapping = [(0, 6), (1, 7)], frequency = 1\<rparr>]] 1 of
      (filtered_parsed_result, para_relations, leaked) \<Rightarrow>
        para_relations ! 0 =
          [\<lparr>heid = ''e1'', teid = ''e2'', rid = generate_rid ''e1'' ''e2'',
             relations = [(''Co_Occurrence'', 1::real)]\<rparr>,
           \<lparr>heid = ''e1'', teid = ''e3'', rid = generate_rid ''e1'' ''e3'',
             relations = [(''Co_Occurrence'', 1)]\<rparr>,
           \<lparr>heid = ''e2'', teid = ''e3'', rid = generate_rid ''e2'' ''e3'',
             relations = [(''Co_Occurrence'', 1)]\<rparr>]
        \<and> length (para_relations ! 0) = 3)"
  using co_occurrence_baseline
    [of 0 "[''it rains, he stays and we wait'']"
      "[[\<lparr>eid = ''e1'', pattern = ''s-v'', signature = [(''it'', ''PRP''), (''rain'', ''VBZ'')],
         raw_sent_mapping = [(0, 0), (1, 1)], frequency = 1\<rparr>,
        \<lparr>eid = ''e2'', pattern = ''s-v'', signature = [(''he'', ''PRP''), (''stay'', ''VBZ'')],
         raw_sent_mapping = [(0, 3), (1, 4)], frequency = 1\<rparr>,
        \<lparr>eid = ''e3'', pattern = ''s-v'', signature = [(''we'', ''PRP''), (''wait'', ''VBP'')],
         raw_sent_mapping = [(0, 6), (1, 7)], frequency = 1\<rparr>]]"
      "''.''", where ?'w = real]
  by (simp add: co_occurrences_def upt_rec split: prod.splits)

text \<open>
  The claim as stated fails for \<open>extract_from_parsed_result\<close>, which has no such loop: it
  adds \<open>Co_Occurrence\<close> only between the eventualities of the two arguments of a connective
  of one sentence.  Here the first sentence ends with two eventualities in its list and no
  relation in its bucket.
\<close>

theorem no_baseline_in_combined_extraction:
  "extract_from_parsed_result
     \<lparr>conn_extractor = (\<lambda>sentences. Inr
        [\<lparr>sent_idx = 1, indices = [0],
          arg1 = Some \<lparr>sent_idx = 0, indices = [0, 1, 2, 3]\<rparr>,
          arg2 = Some \<lparr>sent_idx = 1, indices = [1, 2]\<rparr>,
          sense = Some ''Result''\<rparr>]),
      argpos_classifier = (\<lambda>sentences connectives. Inr ([], connectives)),
      ss_extractor = (\<lambda>sentences connectives. Inr connectives),
      ps_extractor = (\<lambda>sentences connectives. Inr connectives),
      explicit_classifier = (\<lambda>sentences connectives. Inr connectives)\<rparr>
     (\<lambda>p. if tokens p = [''it'', ''rains'', ''and'', ''pours'']
          then Inr [\<lparr>eid = [], pattern = ''s-v'', signature = [(''it'', ''PRP''), (''rain'', ''VBZ'')],
                      raw_sent_mapping = [(0, 0), (1, 1)], frequency = 1\<rparr>,
                    \<lparr>eid = [], pattern = ''s-v'', signature = [(''it'', ''PRP''), (''pour'', ''VBZ'')],
                      raw_sent_mapping = [(0, 0), (1, 3)], frequency = 1\<rparr>]
          else Inr [])
     (\<lambda>e. concat (map fst (signature e)))
     (PyList
       [\<lparr>tokens = [''it'', ''rains'', ''and'', ''pours''],
         pos_tags = [''PRP'', ''VBZ'', ''CC'', ''VBZ''],
         sent_lemmas = [''it'', ''rain'', ''and'', ''pour''],
         dependencies = [(1, ''nsubj'', 0), (1, ''conj'', 3), (3, ''cc'', 2)],
         sent_text = ''it rains and pours'', parse = None, ners = None, mentions = None\<rparr>,
        \<lparr>tokens = [''so'', ''we'', ''stay''],
         pos_tags = [''RB'', ''PRP'', ''VBP''],
         sent_lemmas = [''so'', ''we'', ''stay''],
         dependencies = [(2, ''advmod'', 0), (2, ''nsubj'', 1)],
         sent_text = ''so we stay'', parse = None, ners = None, mentions = None\<rparr>])
     ''Eventuality'' ''Relation'' True
   = Inr (Buckets
           [[AsEventuality \<lparr>eid = ''itrain'', pattern = ''s-v'',
               signature = [(''it'', ''PRP''), (''rain'', ''VBZ'')],
               raw_sent_mapping = [(0, 0), (1, 1)], frequency = 1\<rparr>,
             AsEventuality \<lparr>eid = ''itpour'', pattern = ''s-v'',
               signature = [(''it'', ''PRP''), (''pour'', ''VBZ'')],
               raw_sent_mapping = [(0, 0), (1, 3)], frequency = 1\<rparr>],
            []],
          Buckets [[], [], [] :: real relation_item list])"
  apply (simp add: extract_from_parsed_result_def run_discourse_parser_def connective_key_def)
  apply (simp add: connective_step_def eventualities_of_argument_def project_argument_def
      project_dependencies_def idx_mapping_def subscript_def getitem_def
      insert_eventualities_def remap_raw_sent_mapping_def setitem_def argument_relations_def
      ordered_eventualities_def Let_def)
  apply (simp add: eval_nat_numeral)
  done

section \<open>The merged output\<close>

lemma run_no_connectives:
  "run_discourse_parser
     \<lparr>conn_extractor = (\<lambda>sentences. Inr []),
      argpos_classifier = (\<lambda>sentences connectives. Inr (connectives, [])),
      ss_extractor = (\<lambda>sentences connectives. Inr connectives),
      ps_extractor = (\<lambda>sentences connectives. Inr connectives),
      explicit_classifier = (\<lambda>sentences connectives. Inr connectives)\<rparr> sentences = Inr []"
  by (simp add: run_discourse_parser_def)

lemma in_order_relations:
  "extract_relations_from_parsed_result
     \<lparr>conn_extractor = (\<lambda>sentences. Inr []),
      argpos_classifier = (\<lambda>sentences connectives. Inr (connectives, [])),
      ss_extractor = (\<lambda>sentences connectives. Inr connectives),
      ps_extractor = (\<lambda>sentences connectives. Inr connectives),
      explicit_classifier = (\<lambda>sentences connectives. Inr connectives)\<rparr>
     match_argument_eventuality_by_Simpson ''.''
     (Sized IsList [''it rains and he stays'']) 
     [[\<lparr>eid = ''e1'', pattern = ''s-v'', signature = [(''it'', ''PRP''), (''rain'', ''VBZ'')],
        raw_sent_mapping = [(0, 0), (1, 1)], frequency = 1\<rparr>,
       \<lparr>eid = ''e2'', pattern = ''s-v'', signature = [(''he'', ''PRP''), (''stay'', ''VBZ'')],
        raw_sent_mapping = [(0, 3), (1, 4)], frequency = 1\<rparr>]]
     ''Relation'' True
   = Inr (Buckets [[AsRelation \<lparr>heid = ''e1'', teid = ''e2'', rid = generate_rid ''e1'' ''e2'',
                                  relations = [(''Co_Occurrence'', 1::real)]\<rparr>]])"
  by (simp add: extract_relations_from_parsed_result_def baseline_def baseline_step_def
      co_occurrence_relations_def run_no_connectives Relation_def Let_def add_weight_def)

lemma merge_by_rid_misspelt:
  "merge_by_rid ''deeocopy'' (relation # rest) = Inl (NameError ''deeocopy'')"
  by (simp add: merge_by_rid_def call_copy_def module_names_def)

text \<open>
  Claim C1.  For the sentence above, whose bucket holds one relation, the merged output of
  \<open>extract_relations_from_parsed_result\<close> is not the relation: copying the first relation
  calls \<open>deeocopy\<close>, a name that is bound nowhere, and the call raises NameError.
\<close>

theorem merged_relations_raise:
  "extract_relations_from_parsed_result
     \<lparr>conn_extractor = (\<lambda>sentences. Inr []),
      argpos_classifier = (\<lambda>sentences connectives. Inr (connectives, [])),
      ss_extractor = (\<lambda>sentences connectives. Inr connectives),
      ps_extractor = (\<lambda>sentences connectives. Inr connectives),
      explicit_classifier = (\<lambda>sentences connectives. Inr connectives)\<rparr>
     match_argument_eventuality_by_Simpson ''.''
     (Sized IsList [''it rains and he stays'']) 
     [[\<lparr>eid = ''e1'', pattern = ''s-v'', signature = [(''it'', ''PRP''), (''rain'', ''VBZ'')],
        raw_sent_mapping = [(0, 0), (1, 1)], frequency = 1\<rparr>,
       \<lparr>eid = ''e2'', pattern = ''s-v'', signature = [(''he'', ''PRP''), (''stay'', ''VBZ'')],
        raw_sent_mapping = [(0, 3), (1, 4)], frequency = 1\<rparr>]]
     ''Relation'' False
   = (Inl (NameError ''deeocopy'') :: error + real relation_item extracted)"
  by (simp add: extract_relations_from_parsed_result_def baseline_def baseline_step_def
      co_occurrence_relations_def run_no_connectives merge_by_rid_def call_copy_def module_names_def)

text \<open>
  In \<open>extract_from_parsed_result\<close> the copy is spelt \<open>deepcopy\<close>, and the merge of a second
  relation with the rid of an earlier one calls \<open>update\<close>, which a Relation does not have:
  two buckets with the same relation raise AttributeError instead of summing the weights.
\<close>

lemma same_relation_in_two_buckets:
  "extract_from_parsed_result
     \<lparr>conn_extractor = (\<lambda>sentences. Inr
        [\<lparr>sent_idx = 0, indices = [2],
          arg1 = Some \<lparr>sent_idx = 0, indices = [0, 1]\<rparr>,
          arg2 = Some \<lparr>sent_idx = 0, indices = [3, 4]\<rparr>,
          sense = Some ''Result''\<rparr>,
         \<lparr>sent_idx = 1, indices = [2],
          arg1 = Some \<lparr>sent_idx = 1, indices = [0, 1]\<rparr>,
          arg2 = Some \<lparr>sent_idx = 1, indices = [3, 4]\<rparr>,
          sense = Some ''Result''\<rparr>]),
      argpos_classifier = (\<lambda>sentences connectives. Inr (connectives, [])),
      ss_extractor = (\<lambda>sentences connectives. Inr connectives),
      ps_extractor = (\<lambda>sentences connectives. Inr connectives),
      explicit_classifier = (\<lambda>sentences connectives. Inr connectives)\<rparr>
     (\<lambda>p. Inr [\<lparr>eid = [], pattern = ''s-v'', signature = zip (sent_lemmas p) (pos_tags p),
                  raw_sent_mapping = [(0, 0), (1, 1)], frequency = 1\<rparr>])
     (\<lambda>e. concat (map fst (signature e)))
     (PyList
       [\<lparr>tokens = [''it'', ''rains'', ''so'', ''we'', ''wait''],
         pos_tags = [''PRP'', ''VBZ'', ''RB'', ''PRP'', ''VBP''],
         sent_lemmas = [''it'', ''rain'', ''so'', ''we'', ''wait''],
         dependencies = [(1, ''nsubj'', 0), (4, ''advmod'', 2), (4, ''nsubj'', 3)],
         sent_text = ''it rains so we wait'', parse = None, ners = None, mentions = None\<rparr>,
        \<lparr>tokens = [''it'', ''rains'', ''so'', ''we'', ''wait''],
         pos_tags = [''PRP'', ''VBZ'', ''RB'', ''PRP'', ''VBP''],
         sent_lemmas = [''it'', ''rain'', ''so'', ''we'', ''wait''],
         dependencies = [(1, ''nsubj'', 0), (4, ''advmod'', 2), (4, ''nsubj'', 3)],
         sent_text = ''it rains so we wait'', parse = None, ners = None, mentions = None\<rparr>])
     ''Eventuality'' ''Relation'' True
   = Inr (Buckets
           [[AsEventuality \<lparr>eid = ''itrain'', pattern = ''s-v'',
               signature = [(''it'', ''PRP''), (''rain'', ''VBZ'')],
               raw_sent_mapping = [(0, 0), (1, 1)], frequency = 1\<rparr>,
             AsEventuality \<lparr>eid = ''wewait'', pattern = ''s-v'',
               signature = [(''we'', ''PRP''), (''wait'', ''VBP'')],
               raw_sent_mapping = [(0, 3), (1, 4)], frequency = 1\<rparr>],
            [AsEventuality \<lparr>eid = ''itrain'', pattern = ''s-v'',
               signature = [(''it'', ''PRP''), (''rain'', ''VBZ'')],
               raw_sent_mapping = [(0, 0), (1, 1)], frequency = 1\<rparr>,
             AsEventuality \<lparr>eid = ''wewait'', pattern = ''s-v'',
               signature = [(''we'', ''PRP''), (''wait'', ''VBP'')],
               raw_sent_mapping = [(0, 3), (1, 4)], frequency = 1\<rparr>]],
          Buckets
           [[AsRelation \<lparr>heid = ''itrain'', teid = ''wewait'',
               rid = generate_rid ''itrain'' ''wewait'',
               relations = [(''Co_Occurrence'', 1::real), (''Result'', 1)]\<rparr>],
            [AsRelation \<lparr>heid = ''itrain'', teid = ''wewait'',
               rid = generate_rid ''itrain'' ''wewait'',
               relations = [(''Co_Occurrence'', 1::real), (''Result'', 1)]\<rparr>],
            []])"
  apply (simp add: extract_from_parsed_result_def run_discourse_parser_def connective_key_def)
  apply (simp add: connective_step_def eventualities_of_argument_def project_argument_def
      project_dependencies_def idx_mapping_def subscript_def getitem_def
      insert_eventualities_def remap_raw_sent_mapping_def setitem_def argument_relations_def
      lookup_or_create_def Relation_def add_weight_def
      ordered_eventualities_def Let_def)
  apply (simp add: eval_nat_numeral)
  done

lemma merged_extraction_raises:
  "extract_from_parsed_result
     \<lparr>conn_extractor = (\<lambda>sentences. Inr
        [\<lparr>sent_idx = 0, indices = [2],
          arg1 = Some \<lparr>sent_idx = 0, indices = [0, 1]\<rparr>,
          arg2 = Some \<lparr>sent_idx = 0, indices = [3, 4]\<rparr>,
          sense = Some ''Result''\<rparr>,
         \<lparr>sent_idx = 1, indices = [2],
          arg1 = Some \<lparr>sent_idx = 1, indices = [0, 1]\<rparr>,
          arg2 = Some \<lparr>sent_idx = 1, indices = [3, 4]\<rparr>,
          sense = Some ''Result''\<rparr>]),
      argpos_classifier = (\<lambda>sentences connectives. Inr (connectives, [])),
      ss_extractor = (\<lambda>sentences connectives. Inr connectives),
      ps_extractor = (\<lambda>sentences connectives. Inr connectives),
      explicit_classifier = (\<lambda>sentences connectives. Inr connectives)\<rparr>
     (\<lambda>p. Inr [\<lparr>eid = [], pattern = ''s-v'', signature = zip (sent_lemmas p) (pos_tags p),
                  raw_sent_mapping = [(0, 0), (1, 1)], frequency = 1\<rparr>])
     (\<lambda>e. concat (map fst (signature e)))
     (PyList
       [\<lparr>tokens = [''it'', ''rains'', ''so'', ''we'', ''wait''],
         pos_tags = [''PRP'', ''VBZ'', ''RB'', ''PRP'', ''VBP''],
         sent_lemmas = [''it'', ''rain'', ''so'', ''we'', ''wait''],
         dependencies = [(1, ''nsubj'', 0), (4, ''advmod'', 2), (4, ''nsubj'', 3)],
         sent_text = ''it rains so we wait'', parse = None, ners = None, mentions = None\<rparr>,
        \<lparr>tokens = [''it'', ''rains'', ''so'', ''we'', ''wait''],
         pos_tags = [''PRP'', ''VBZ'', ''RB'', ''PRP'', ''VBP''],
         sent_lemmas = [''it'', ''rain'', ''so'', ''we'', ''wait''],
         dependencies = [(1, ''nsubj'', 0), (4, ''advmod'', 2), (4, ''nsubj'', 3)],
         sent_text = ''it rains so we wait'', parse = None, ners = None, mentions = None\<rparr>])
     ''Eventuality'' ''Relation'' False
   = (Inl (AttributeError ''update'')
        :: error + eventuality_item extracted \<times> real relation_item extracted)"
  apply (simp add: extract_from_parsed_result_def run_discourse_parser_def connective_key_def)
  apply (simp add: connective_step_def eventualities_of_argument_def project_argument_def
      project_dependencies_def idx_mapping_def subscript_def getitem_def
      insert_eventualities_def remap_raw_sent_mapping_def setitem_def argument_relations_def
      lookup_or_create_def Relation_def add_weight_def Let_def)
  apply (simp add: eval_nat_numeral merge_by_rid_def call_copy_def module_names_def
      call_method_def getattr_def)
  done

section \<open>Sentences that are not adjacent\<close>

text \<open>
  In \<open>extract_from_parsed_result\<close> a connective whose arguments are in sentences that are
  neither the same nor adjacent leaves every bucket as it was.
\<close>

lemma connective_step_adjacency:
  assumes "arg1 connective = Some a1" and "arg2 connective = Some a2"
    and "sent_idx a1 \<noteq> sent_idx a2" and "sent_idx a1 + 1 \<noteq> sent_idx a2"
    and "connective_step eventuality_extractor generate_eid parsed_result len_sentences connective
           (para_eventualities, para_relations) = Inr (para_eventualities', para_relations')"
  shows "para_relations' = para_relations"
  using assms
  by (auto simp: connective_step_def and_then_def split: if_splits sum.splits prod.splits)

text \<open>
  Claim C4.  \<open>extract_relations_from_parsed_result\<close> has no such test: for a connective
  with its first argument in sentence 0 and its second in sentence 2 of three sentences the
  relation is created, in bucket \<open>0 + 3\<close>, the bucket of the sentences 0 and 1.
\<close>

theorem non_adjacent_relation_created:
  "extract_relations_from_parsed_result
     \<lparr>conn_extractor = (\<lambda>sentences. Inr
        [\<lparr>sent_idx = 2, indices = [0],
          arg1 = Some \<lparr>sent_idx = 0, indices = [0, 1]\<rparr>,
          arg2 = Some \<lparr>sent_idx = 2, indices = [1, 2]\<rparr>,
          sense = Some ''Reason''\<rparr>]),
      argpos_classifier = (\<lambda>sentences connectives. Inr ([], connectives)),
      ss_extractor = (\<lambda>sentences connectives. Inr connectives),
      ps_extractor = (\<lambda>sentences connectives. Inr connectives),
      explicit_classifier = (\<lambda>sentences connectives. Inr connectives)\<rparr>
     match_argument_eventuality_by_Simpson ''.''
     (Sized IsList [''it rained'', ''we waited'', ''so he stayed'']) 
     [[\<lparr>eid = ''e1'', pattern = ''s-v'', signature = [(''it'', ''PRP''), (''rain'', ''VBD'')],
        raw_sent_mapping = [(0, 0), (1, 1)], frequency = 1\<rparr>],
      [],
      [\<lparr>eid = ''e3'', pattern = ''s-v'', signature = [(''he'', ''PRP''), (''stay'', ''VBD'')],
        raw_sent_mapping = [(0, 1), (1, 2)], frequency = 1\<rparr>]]
     ''Relation'' True
   = Inr (Buckets [[], [], [],
        [AsRelation \<lparr>heid = ''e1'', teid = ''e3'', rid = generate_rid ''e1'' ''e3'',
                      relations = [(''Reason'', 1::real)]\<rparr>],
        []])"
  apply (simp add: extract_relations_from_parsed_result_def baseline_def baseline_step_def
      co_occurrence_relations_def run_discourse_parser_def connective_key_def)
  apply (simp add: relations_of_connective_def getitem_def setitem_def
      two_sentence_relations_def bound_def match_argument_eventuality_by_Simpson_def
      lookup_or_create_def Relation_def Let_def add_weight_def)
  apply (simp add: eval_nat_numeral)
  done

section \<open>A paragraph of no sentence\<close>





section \<open>The checks of the entry points\<close>

text \<open>
  All three entry points test the output format first, and two of them test the type of
  \<open>parsed_result\<close> before any other work.
\<close>

lemma format_checked_first:
  "eventuality_format \<notin> set [''Eventuality'', ''json''] \<Longrightarrow>
     extract_eventualities_from_parsed_result parser tools eventuality_extractor parsed_result
       eventuality_format in_order = Inl NotImplementedError"
  "relation_format \<notin> set [''Relation'', ''triple''] \<Longrightarrow>
     extract_relations_from_parsed_result parser matches EMPTY_SENT_PARSED_RESULT sized
       para_eventualities relation_format in_order = Inl NotImplementedError"
  "eventuality_format \<notin> set [''Eventuality'', ''json'']
     \<or> relation_format \<notin> set [''Relation'', ''triple''] \<Longrightarrow>
     extract_from_parsed_result parser eventuality_extractor generate_eid parsed_result
       eventuality_format relation_format in_order = Inl NotImplementedError"
  by (auto simp: extract_eventualities_from_parsed_result_def
      extract_relations_from_parsed_result_def extract_from_parsed_result_def)

lemma parsed_result_checked:
  "extract_eventualities_from_parsed_result parser tools eventuality_extractor PyOther
       eventuality_format in_order = Inl NotImplementedError"
  "extract_from_parsed_result parser eventuality_extractor generate_eid PyOther
       eventuality_format relation_format in_order = Inl NotImplementedError"
  by (auto simp: extract_eventualities_from_parsed_result_def extract_from_parsed_result_def)

text \<open>
  Claim C8.  \<open>extract_relations_from_parsed_result\<close> has no test of the type of
  \<open>parsed_result\<close>: for an empty string (a sized object that is neither a dict, a list nor a
  tuple) and a valid format it returns one empty bucket and raises nothing.
\<close>

theorem relations_entry_point_unchecked:
  "extract_relations_from_parsed_result parser matches EMPTY_SENT_PARSED_RESULT
     (Sized IsStr []) para_eventualities ''Relation'' True = Inr (Buckets [[]])"
  by (simp add: extract_relations_from_parsed_result_def)

text \<open>
  For a string of two characters and no eventualities the function goes on to run the
  discourse parser; when that finds no connective, three empty buckets are returned.
\<close>

lemma relations_entry_point_unchecked_work:
  assumes "run_discourse_parser parser [EMPTY_SENT_PARSED_RESULT, EMPTY_SENT_PARSED_RESULT] = Inr []"
  shows "extract_relations_from_parsed_result parser matches EMPTY_SENT_PARSED_RESULT
     (Sized IsStr [c1, c2]) [[], []] ''Relation'' True = Inr (Buckets [[], [], []])"
  using assms
  by (simp add: extract_relations_from_parsed_result_def baseline_def baseline_step_def
      eval_nat_numeral)

end
